theory Spec2Isabelle
  imports Main "HOL-Library.Word"
begin

section \<open>Strings and numbers of the source language\<close>

text \<open>
  The hook \<open>useFormValidation\<close> is written in TypeScript. A string of that language is a
  finite sequence of UTF-16 code units: \<open>value.length\<close> counts code units, \<open>===\<close> compares
  them one by one, and a regular expression without the \<open>u\<close> flag reads one code unit at
  a time. A string is therefore a list of 16-bit words; \<open>js\<close> turns an ASCII literal into
  such a list.
\<close>

type_synonym jschar = "16 word"
type_synonym jsstring = "jschar list"

definition js :: "string \<Rightarrow> jsstring" where
  "js s = map of_char s"

text \<open>
  A value that may be \<open>undefined\<close> (a property read of a missing key) or \<open>null\<close> (an
  absent error) is an option. \<open>holds value P\<close> is the source's \<open>value && P(value)\<close> on a
  string that may be undefined: the empty string and \<open>undefined\<close> are falsy.
\<close>

type_synonym jsvalue = "jsstring option"

definition holds :: "jsvalue \<Rightarrow> (jsstring \<Rightarrow> bool) \<Rightarrow> bool" where
  "holds value P = (case value of None \<Rightarrow> False | Some v \<Rightarrow> v \<noteq> [] \<and> P v)"

definition truthy :: "jsvalue \<Rightarrow> bool" where
  "truthy value = holds value (\<lambda>v. True)"

text \<open>\<open>or_str a b\<close> is \<open>a || b\<close> for an optional string \<open>a\<close> and a string \<open>b\<close>.\<close>

definition or_str :: "jsvalue \<Rightarrow> jsstring \<Rightarrow> jsstring" where
  "or_str a b = (case a of None \<Rightarrow> b | Some s \<Rightarrow> if s = [] then b else s)"

text \<open>
  The numeric options of a field are integers here (the source's \<open>number\<close>, taken at the
  integer values a length bound has). \<open>num_and m P\<close> is \<open>m && P(m)\<close>: \<open>undefined\<close> and
  \<open>0\<close> are falsy. \<open>template m\<close> is the text that a template literal \<open>${m}\<close> inserts:
  the decimal digits of an integer. The source's numbers are doubles, so this is what
  the source prints for integers below \<open>2^53\<close> in absolute value; larger bounds and
  bounds with a fraction are outside the model.
\<close>

definition num_and :: "int option \<Rightarrow> (int \<Rightarrow> bool) \<Rightarrow> bool" where
  "num_and m P = (case m of None \<Rightarrow> False | Some k \<Rightarrow> k \<noteq> 0 \<and> P k)"

definition digit :: "nat \<Rightarrow> jschar" where
  "digit d = of_nat (48 + d)"

fun show_nat :: "nat \<Rightarrow> jsstring" where
  "show_nat n = (if n < 10 then [digit n] else show_nat (n div 10) @ [digit (n mod 10)])"

declare show_nat.simps [simp del]

definition show_int :: "int \<Rightarrow> jsstring" where
  "show_int k = (if k < 0 then js ''-'' @ show_nat (nat (- k)) else show_nat (nat k))"

definition template :: "int option \<Rightarrow> jsstring" where
  "template m = (case m of None \<Rightarrow> js ''undefined'' | Some k \<Rightarrow> show_int k)"

section \<open>Regular expressions\<close>

text \<open>
  The patterns of the source use character classes, negated classes, concatenation and
  the repetitions \<open>+\<close> and \<open>{2,}\<close>. \<open>OneOf\<close> is a class \<open>[...]\<close>, \<open>NoneOf\<close> a negated
  class \<open>[^...]\<close>, \<open>Then\<close> concatenation and \<open>AtLeast n r\<close> the repetition \<open>r{n,}\<close>
  (so \<open>r+\<close> is \<open>AtLeast 1 r\<close>). \<open>Done\<close>, \<open>Fail\<close> and \<open>Or\<close> are the empty pattern, the
  pattern that matches nothing and alternation; the matcher needs them for the
  residual of a pattern after one code unit.
\<close>

datatype citem = Lit jschar | Span jschar jschar

datatype regex =
    OneOf "citem list"
  | NoneOf "citem list"
  | Then regex regex
  | AtLeast nat regex
  | Done
  | Fail
  | Or regex regex

fun in_item :: "jschar \<Rightarrow> citem \<Rightarrow> bool" where
  "in_item c (Lit d) = (c = d)"
| "in_item c (Span lo hi) = (lo \<le> c \<and> c \<le> hi)"

definition in_class :: "jschar \<Rightarrow> citem list \<Rightarrow> bool" where
  "in_class c items = list_ex (in_item c) items"

fun nullable :: "regex \<Rightarrow> bool" where
  "nullable (OneOf items) = False"
| "nullable (NoneOf items) = False"
| "nullable (Then r s) = (nullable r \<and> nullable s)"
| "nullable (AtLeast n r) = (n = 0 \<or> nullable r)"
| "nullable Done = True"
| "nullable Fail = False"
| "nullable (Or r s) = (nullable r \<or> nullable s)"

fun deriv :: "jschar \<Rightarrow> regex \<Rightarrow> regex" where
  "deriv c (OneOf items) = (if in_class c items then Done else Fail)"
| "deriv c (NoneOf items) = (if in_class c items then Fail else Done)"
| "deriv c (Then r s) =
     (if nullable r then Or (Then (deriv c r) s) (deriv c s) else Then (deriv c r) s)"
| "deriv c (AtLeast n r) = Then (deriv c r) (AtLeast (n - 1) r)"
| "deriv c Done = Fail"
| "deriv c Fail = Fail"
| "deriv c (Or r s) = Or (deriv c r) (deriv c s)"

fun matches :: "regex \<Rightarrow> jsstring \<Rightarrow> bool" where
  "matches r [] = nullable r"
| "matches r (c # cs) = matches (deriv c r) cs"

text \<open>
  The meaning of a pattern is the set of strings it matches in full; \<open>lang_pow L k\<close> is
  the set of concatenations of \<open>k\<close> strings of \<open>L\<close>. The matcher is proved below to
  decide exactly this set.
\<close>

fun lang_pow :: "jsstring set \<Rightarrow> nat \<Rightarrow> jsstring set" where
  "lang_pow L 0 = {[]}"
| "lang_pow L (Suc k) = {u @ w | u w. u \<in> L \<and> w \<in> lang_pow L k}"

fun lang :: "regex \<Rightarrow> jsstring set" where
  "lang (OneOf items) = {[c] | c. in_class c items}"
| "lang (NoneOf items) = {[c] | c. \<not> in_class c items}"
| "lang (Then r s) = {u @ w | u w. u \<in> lang r \<and> w \<in> lang s}"
| "lang (AtLeast n r) = {v. \<exists>k. n \<le> k \<and> v \<in> lang_pow (lang r) k}"
| "lang Done = {[]}"
| "lang Fail = {}"
| "lang (Or r s) = lang r \<union> lang s"

text \<open>
  \<open>test_full r v\<close> is \<open>/^r$/.test(v)\<close>: the whole string matches. \<open>test_search r v\<close>
  is \<open>/r/.test(v)\<close>: some substring matches, that is, the whole string matches \<open>r\<close>
  between two runs of arbitrary code units. \<open>match_count r v\<close> is
  \<open>(v.match(/r/g)?.length || 0)\<close> for a pattern \<open>r\<close> that is one character class: every
  match is one code unit, so the matches are the code units of \<open>v\<close> that \<open>r\<close> accepts.
\<close>

definition any_run :: regex where
  "any_run = AtLeast 0 (NoneOf [])"

definition test_full :: "regex \<Rightarrow> jsstring \<Rightarrow> bool" where
  "test_full r v = matches r v"

definition test_search :: "regex \<Rightarrow> jsstring \<Rightarrow> bool" where
  "test_search r v = matches (Then any_run (Then r any_run)) v"

definition match_count :: "regex \<Rightarrow> jsstring \<Rightarrow> nat" where
  "match_count r v = length (filter (\<lambda>c. matches r [c]) v)"

definition ch :: "char \<Rightarrow> jschar" where
  "ch c = of_char c"

definition lower :: citem where "lower = Span (ch CHR ''a'') (ch CHR ''z'')"
definition upper :: citem where "upper = Span (ch CHR ''A'') (ch CHR ''Z'')"
definition digits :: citem where "digits = Span (ch CHR ''0'') (ch CHR ''9'')"

text \<open>\<open>/^[a-zA-Z0-9._%+-]+@[a-zA-Z0-9.-]+\.[a-zA-Z]{2,}$/\<close>, without its anchors.\<close>

definition emailRegex :: regex where
  "emailRegex =
     Then (AtLeast 1 (OneOf [lower, upper, digits, Lit (ch CHR ''.''), Lit (ch CHR ''_''),
                             Lit (ch CHR ''%''), Lit (ch CHR ''+''), Lit (ch CHR ''-'')]))
    (Then (OneOf [Lit (ch CHR ''@'')])
    (Then (AtLeast 1 (OneOf [lower, upper, digits, Lit (ch CHR ''.''), Lit (ch CHR ''-'')]))
    (Then (OneOf [Lit (ch CHR ''.'')])
          (AtLeast 2 (OneOf [lower, upper])))))"

text \<open>\<open>/[^a-zA-Z0-9@._\-+]/\<close>, the pattern of the second email check.\<close>

definition emailCharsRegex :: regex where
  "emailCharsRegex =
     NoneOf [lower, upper, digits, Lit (ch CHR ''@''), Lit (ch CHR ''.''), Lit (ch CHR ''_''),
             Lit (ch CHR ''-''), Lit (ch CHR ''+'')]"

text \<open>\<open>/[^a-zA-Z0-9]/g\<close>, \<open>/[A-Z]/g\<close> and \<open>/[0-9]/g\<close>.\<close>

definition specialCharRegex :: regex where
  "specialCharRegex = NoneOf [lower, upper, digits]"

definition uppercaseRegex :: regex where
  "uppercaseRegex = OneOf [upper]"

definition numberRegex :: regex where
  "numberRegex = OneOf [digits]"

text \<open>\<open>/^\d+$/\<close> without its anchors, and \<open>/[^\d]/\<close>.\<close>

definition onlyDigitsRegex :: regex where
  "onlyDigitsRegex = AtLeast 1 (OneOf [digits])"

definition nonDigitRegex :: regex where
  "nonDigitRegex = NoneOf [digits]"

section \<open>The data model\<close>

datatype FieldType = Email | Password | RepeatPassword | Text | Number | Textarea

record FieldConfig =
  type :: FieldType
  label :: "jsstring option"
  required :: "bool option"
  minLength :: "int option"
  maxLength :: "int option"
  minSpecialChars :: "int option"
  minUppercase :: "int option"
  minNumbers :: "int option"
  matchField :: "jsstring option"

text \<open>
  A \<open>FormConfig\<close> is an object from field names to field configurations. It is the list
  of its entries in the order of \<open>Object.keys\<close>; \<open>config[name]\<close> is the lookup in that
  list. \<open>FormValues\<close> and \<open>FormErrors\<close> are objects used as dictionaries: a missing key
  reads as \<open>undefined\<close>, and an error entry may be present with the value \<open>null\<close>.
  A name that is no key of the configuration but that \<open>Object.prototype\<close> defines
  reads from \<open>config\<close> as a value without \<open>type\<close> and \<open>required\<close>, which \<open>validateField\<close>
  treats like a missing entry; read from the value store it is no string, so no string
  equals it.
\<close>

type_synonym FormConfig = "(jsstring \<times> FieldConfig) list"
type_synonym FormValues = "jsstring \<rightharpoonup> jsstring"
type_synonym FormErrors = "jsstring \<rightharpoonup> jsstring option"

definition Object_keys :: "FormConfig \<Rightarrow> jsstring list" where
  "Object_keys config = map fst config"

definition config_get :: "FormConfig \<Rightarrow> jsstring \<Rightarrow> FieldConfig option" where
  "config_get config name = map_of config name"

section \<open>validateField\<close>

text \<open>
  The source is a sequence of guarded \<open>return\<close> statements closed by \<open>return null\<close>;
  the model is the chain of the same guards in the same order. \<open>vals\<close> is the value
  store \<open>values\<close> that the closure of \<open>validateField\<close> sees.
\<close>

definition validateField ::
  "FormConfig \<Rightarrow> FormValues \<Rightarrow> jsstring \<Rightarrow> jsvalue \<Rightarrow> jsstring option" where
  "validateField config vals name value =
    (case config_get config name of
       None \<Rightarrow> None
     | Some field \<Rightarrow>
        if required field = Some True \<and> \<not> truthy value
          then Some (or_str (label field) name @ js '' is required.'')
        else if type field = Email \<and> holds value (\<lambda>v. \<not> test_full emailRegex v)
          then Some (js ''Invalid email format.'')
        else if type field = Email \<and> holds value (\<lambda>v. test_search emailCharsRegex v)
          then Some (js ''Email contains invalid characters.'')
        else if type field = Password \<and>
                holds value (\<lambda>v. num_and (minLength field) (\<lambda>k. int (length v) < k))
          then Some (js ''Password must be at least '' @ template (minLength field)
                     @ js '' characters.'')
        else if type field = Password \<and>
                holds value (\<lambda>v. num_and (minSpecialChars field)
                                    (\<lambda>k. int (match_count specialCharRegex v) < k))
          then Some (js ''Password must contain at least '' @ template (minSpecialChars field)
                     @ js '' special character(s).'')
        else if type field = Password \<and>
                holds value (\<lambda>v. num_and (minUppercase field)
                                    (\<lambda>k. int (match_count uppercaseRegex v) < k))
          then Some (js ''Password must contain at least '' @ template (minUppercase field)
                     @ js '' uppercase letter(s).'')
        else if type field = Password \<and>
                holds value (\<lambda>v. num_and (minNumbers field)
                                    (\<lambda>k. int (match_count numberRegex v) < k))
          then Some (js ''Password must contain at least '' @ template (minNumbers field)
                     @ js '' number(s).'')
        else if type field = RepeatPassword \<and>
                holds value (\<lambda>v. Some v \<noteq> vals (or_str (matchField field) (js ''password'')))
          then Some (js ''Passwords do not match.'')
        else if type field = Text \<and> holds value (\<lambda>v. test_full onlyDigitsRegex v)
          then Some (js ''Text cannot be only numbers.'')
        else if type field = Text \<and>
                holds value (\<lambda>v. num_and (minLength field) (\<lambda>k. int (length v) < k))
          then Some (js ''Text must be at least '' @ template (minLength field)
                     @ js '' characters.'')
        else if type field = Text \<and>
                holds value (\<lambda>v. num_and (maxLength field) (\<lambda>k. int (length v) > k))
          then Some (js ''Text must be at most '' @ template (maxLength field)
                     @ js '' characters.'')
        else if type field = Textarea \<and>
                holds value (\<lambda>v. num_and (minLength field) (\<lambda>k. int (length v) < k))
          then Some (js ''Textarea must be at least '' @ template (minLength field)
                     @ js '' characters.'')
        else if type field = Textarea \<and>
                holds value (\<lambda>v. num_and (maxLength field) (\<lambda>k. int (length v) > k))
          then Some (js ''Textarea must be at most '' @ template (maxLength field)
                     @ js '' characters.'')
        else if type field = Number \<and> holds value (\<lambda>v. test_search nonDigitRegex v)
          then Some (js ''Only numbers are allowed.'')
        else if type field = Number \<and>
                holds value (\<lambda>v. num_and (minLength field) (\<lambda>k. int (length v) < k))
          then Some (js ''Number must be at least '' @ template (minLength field)
                     @ js '' digits.'')
        else if type field = Number \<and>
                holds value (\<lambda>v. num_and (maxLength field) (\<lambda>k. int (length v) > k))
          then Some (js ''Number must be at most '' @ template (maxLength field)
                     @ js '' digits.'')
        else None)"

section \<open>The state and its operations\<close>

text \<open>
  The hook keeps two state cells, \<open>values\<close> and \<open>errors\<close>. Every operation is a closure of
  the render in which it was created: it reads the stores of that render and queues
  their replacement. The model takes the stores before the call and returns the stores
  of the next render.
\<close>

record state =
  values_store :: FormValues
  errors_store :: FormErrors

text \<open>
  Both stores are plain objects, which inherit from \<open>Object.prototype\<close>; a store is
  modelled by its own properties. \<open>assign obj key v\<close> is the assignment \<open>obj[key] = v\<close>
  of a string or of \<open>null\<close>. Under the key \<open>"__proto__"\<close> the inherited setter runs
  instead and no own property is made: a string is ignored, and \<open>null\<close> only clears the
  prototype of \<open>obj\<close>, through which the hook never reads. (An object literal with a
  computed key, as in \<open>handleChange\<close>, does make an own property under that key.)
\<close>

definition assign :: "(jsstring \<rightharpoonup> 'a) \<Rightarrow> jsstring \<Rightarrow> 'a \<Rightarrow> (jsstring \<rightharpoonup> 'a)" where
  "assign obj key v = (if key = js ''__proto__'' then obj else obj(key \<mapsto> v))"

definition initialValues :: "FormConfig \<Rightarrow> FormValues" where
  "initialValues config = fold (\<lambda>key m. assign m key []) (Object_keys config) Map.empty"

definition useFormValidation :: "FormConfig \<Rightarrow> state" where
  "useFormValidation config = \<lparr>values_store = initialValues config, errors_store = Map.empty\<rparr>"

definition handleChange :: "FormConfig \<Rightarrow> state \<Rightarrow> jsstring \<Rightarrow> jsstring \<Rightarrow> state" where
  "handleChange config st name value =
     \<lparr>values_store = (values_store st)(name \<mapsto> value),
      errors_store = (errors_store st)(name \<mapsto> validateField config (values_store st) name (Some value))\<rparr>"

text \<open>
  \<open>validateAll\<close> passes \<open>values[name]\<close> to \<open>validateField\<close>. When the store has no own
  property \<open>name\<close>, the read goes to \<open>Object.prototype\<close>: it yields \<open>undefined\<close> for most
  names, the prototype object itself for \<open>"__proto__"\<close>, and a built-in function for the
  other names that object defines. \<open>Object_prototype name\<close> is \<open>None\<close> when the read
  yields \<open>undefined\<close>, and otherwise holds the \<open>length\<close> property of the value read:
  \<open>undefined\<close> for the prototype object, the number of parameters for a function.
\<close>

definition Object_prototype :: "jsstring \<Rightarrow> int option option" where
  "Object_prototype name =
     (if name = js ''__proto__'' then Some None
      else if name \<in> set (map js [''toString'', ''toLocaleString'', ''valueOf''])
        then Some (Some 0)
      else if name \<in> set (map js [''constructor'', ''hasOwnProperty'', ''isPrototypeOf'',
                                    ''propertyIsEnumerable'', ''__lookupGetter__'',
                                    ''__lookupSetter__''])
        then Some (Some 1)
      else if name \<in> set (map js [''__defineGetter__'', ''__defineSetter__''])
        then Some (Some 2)
      else None)"

text \<open>
  \<open>validateField_object\<close> is the body of \<open>validateField\<close> on such a value \<open>x\<close>, whose
  \<open>length\<close> is \<open>len\<close>. The value is truthy, so the required check passes and every type
  block is entered. A regular expression tests the text of \<open>x\<close> (\<open>"[object Object]"\<close>, or
  the source text of a function), which is no email address, is not made of digits and
  contains a character that is no digit. A comparison with an undefined \<open>length\<close> is
  false. \<open>x.match\<close> is undefined, so the first password check that calls it throws a
  \<open>TypeError\<close>. \<open>x !== values[target]\<close> is false only when the target read yields the
  same object, that is, when the target is \<open>name\<close> itself.
\<close>

datatype error = TypeError

definition length_and :: "int option \<Rightarrow> (int \<Rightarrow> bool) \<Rightarrow> bool" where
  "length_and len P = (case len of None \<Rightarrow> False | Some a \<Rightarrow> P a)"

definition validateField_object ::
  "FormConfig \<Rightarrow> FormValues \<Rightarrow> jsstring \<Rightarrow> int option \<Rightarrow> error + jsstring option" where
  "validateField_object config vals name len =
    (case config_get config name of
       None \<Rightarrow> Inr None
     | Some field \<Rightarrow>
        if type field = Email
          then Inr (Some (js ''Invalid email format.''))
        else if type field = Password \<and>
                num_and (minLength field) (\<lambda>k. length_and len (\<lambda>a. a < k))
          then Inr (Some (js ''Password must be at least '' @ template (minLength field)
                          @ js '' characters.''))
        else if type field = Password \<and> num_and (minSpecialChars field) (\<lambda>k. True)
          then Inl TypeError
        else if type field = Password \<and> num_and (minUppercase field) (\<lambda>k. True)
          then Inl TypeError
        else if type field = Password \<and> num_and (minNumbers field) (\<lambda>k. True)
          then Inl TypeError
        else if type field = RepeatPassword \<and>
                \<not> (vals (or_str (matchField field) (js ''password'')) = None
                   \<and> or_str (matchField field) (js ''password'') = name)
          then Inr (Some (js ''Passwords do not match.''))
        else if type field = Text \<and>
                num_and (minLength field) (\<lambda>k. length_and len (\<lambda>a. a < k))
          then Inr (Some (js ''Text must be at least '' @ template (minLength field)
                          @ js '' characters.''))
        else if type field = Text \<and>
                num_and (maxLength field) (\<lambda>k. length_and len (\<lambda>a. a > k))
          then Inr (Some (js ''Text must be at most '' @ template (maxLength field)
                          @ js '' characters.''))
        else if type field = Textarea \<and>
                num_and (minLength field) (\<lambda>k. length_and len (\<lambda>a. a < k))
          then Inr (Some (js ''Textarea must be at least '' @ template (minLength field)
                          @ js '' characters.''))
        else if type field = Textarea \<and>
                num_and (maxLength field) (\<lambda>k. length_and len (\<lambda>a. a > k))
          then Inr (Some (js ''Textarea must be at most '' @ template (maxLength field)
                          @ js '' characters.''))
        else if type field = Number
          then Inr (Some (js ''Only numbers are allowed.''))
        else Inr None)"

text \<open>\<open>validate_stored config vals name\<close> is the call \<open>validateField(name, values[name])\<close>.\<close>

definition validate_stored ::
  "FormConfig \<Rightarrow> FormValues \<Rightarrow> jsstring \<Rightarrow> error + jsstring option" where
  "validate_stored config vals name =
     (case vals name of
        Some v \<Rightarrow> Inr (validateField config vals name (Some v))
      | None \<Rightarrow>
          (case Object_prototype name of
             None \<Rightarrow> Inr (validateField config vals name None)
           | Some len \<Rightarrow> validateField_object config vals name len))"

text \<open>
  The loop of \<open>validateAll\<close> over \<open>Object.keys(config)\<close>, with \<open>newErrors\<close> and \<open>valid\<close> as
  its accumulator. An exception leaves the loop and \<open>validateAll\<close> at once.
\<close>

fun validateAll_loop ::
  "FormConfig \<Rightarrow> FormValues \<Rightarrow> jsstring list \<Rightarrow> FormErrors \<times> bool
     \<Rightarrow> error + FormErrors \<times> bool" where
  "validateAll_loop config vals [] acc = Inr acc"
| "validateAll_loop config vals (name # names) acc =
     (case validate_stored config vals name of
        Inl e \<Rightarrow> Inl e
      | Inr error \<Rightarrow>
          validateAll_loop config vals names
            (assign (fst acc) name error, if truthy error then False else snd acc))"

text \<open>
  \<open>validateAll_from config render st\<close> is a call of the closure \<open>validateAll\<close> that the
  render with the stores \<open>render\<close> created, made when the queued stores are \<open>st\<close>: it
  reads the values of its render, replaces the queued errors and returns \<open>valid\<close>. When
  it throws, \<open>setErrors\<close> is not reached. \<open>validateAll config st\<close> is the call made
  before any other call of the same render.
\<close>

definition validateAll_from :: "FormConfig \<Rightarrow> state \<Rightarrow> state \<Rightarrow> error + bool \<times> state" where
  "validateAll_from config render st =
     (case validateAll_loop config (values_store render) (Object_keys config) (Map.empty, True) of
        Inl e \<Rightarrow> Inl e
      | Inr acc \<Rightarrow> Inr (snd acc, st\<lparr>errors_store := fst acc\<rparr>))"

definition validateAll :: "FormConfig \<Rightarrow> state \<Rightarrow> error + bool \<times> state" where
  "validateAll config st = validateAll_from config st st"

definition reset :: "FormConfig \<Rightarrow> state \<Rightarrow> state" where
  "reset config st = \<lparr>values_store = initialValues config, errors_store = Map.empty\<rparr>"

section \<open>Runs of operations\<close>

text \<open>
  A caller drives the hook by a sequence of calls, each made from the render that follows
  the previous call: a change event with the name and value of its target, a call of
  \<open>validateAll\<close>, a call of \<open>reset\<close>. \<open>run config acts\<close> is the state after the calls
  \<open>acts\<close> on a freshly mounted hook. A call of \<open>validateAll\<close> that throws leaves the
  stores as they are.
\<close>

datatype action = Change jsstring jsstring | ValidateAll | Reset

fun exec :: "FormConfig \<Rightarrow> state \<Rightarrow> action \<Rightarrow> state" where
  "exec config st (Change name value) = handleChange config st name value"
| "exec config st ValidateAll =
     (case validateAll config st of Inl e \<Rightarrow> st | Inr r \<Rightarrow> snd r)"
| "exec config st Reset = reset config st"

definition run :: "FormConfig \<Rightarrow> action list \<Rightarrow> state" where
  "run config acts = foldl (exec config) (useFormValidation config) acts"

fun configured :: "FormConfig \<Rightarrow> action \<Rightarrow> bool" where
  "configured config (Change name value) = (name \<in> set (Object_keys config))"
| "configured config ValidateAll = True"
| "configured config Reset = True"

text \<open>
  \<open>keys_stored config st\<close>: the value store of \<open>st\<close> has an own entry for every key of
  the configuration, except possibly \<open>"__proto__"\<close>.
\<close>

definition keys_stored :: "FormConfig \<Rightarrow> state \<Rightarrow> bool" where
  "keys_stored config st =
     (\<forall>k\<in>set (Object_keys config). k \<noteq> js ''__proto__'' \<longrightarrow> values_store st k \<noteq> None)"

section \<open>Example configurations\<close>

definition example_field :: "FieldType \<Rightarrow> FieldConfig" where
  "example_field t =
     \<lparr>type = t, label = None, required = None, minLength = None, maxLength = None,
      minSpecialChars = None, minUppercase = None, minNumbers = None, matchField = None\<rparr>"

text \<open>An optional field that carries every other constraint.\<close>

definition constrained_field :: FieldConfig where
  "constrained_field =
     \<lparr>type = Password, label = Some (js ''Secret''), required = Some False,
      minLength = Some 8, maxLength = Some 20, minSpecialChars = Some 1,
      minUppercase = Some 1, minNumbers = Some 2, matchField = Some (js ''other'')\<rparr>"

text \<open>A required field whose label is configured as the empty string.\<close>

definition blank_label_field :: FieldConfig where
  "blank_label_field = (example_field Text)\<lparr>label := Some [], required := Some True\<rparr>"

text \<open>
  The required-error as the specification words it: the configured label, or the key
  of the field when no label is configured.
\<close>

definition spec_required_error :: "FieldConfig \<Rightarrow> jsstring \<Rightarrow> jsstring" where
  "spec_required_error field name =
     (case label field of None \<Rightarrow> name | Some l \<Rightarrow> l) @ js '' is required.''"

text \<open>The password field of the specification's example.\<close>

definition password_field :: FieldConfig where
  "password_field =
     (example_field Password)\<lparr>minLength := Some 8, minSpecialChars := Some 1,
                               minUppercase := Some 1, minNumbers := Some 2\<rparr>"

text \<open>A form with a password and its repetition, and a run that leaves a stale error.\<close>

definition signup_config :: FormConfig where
  "signup_config =
     [(js ''password'', example_field Password),
      (js ''repeatPassword'',
         (example_field RepeatPassword)\<lparr>matchField := Some (js ''password'')\<rparr>)]"

definition stale_run :: "action list" where
  "stale_run =
     [Change (js ''password'') (js ''a''), Change (js ''repeatPassword'') (js ''a''),
      Change (js ''password'') (js ''b'')]"

text \<open>A form with one required field, and a form with none.\<close>

definition email_required :: FieldConfig where
  "email_required = (example_field Email)\<lparr>label := Some (js ''Email''), required := Some True\<rparr>"

definition required_config :: FormConfig where
  "required_config =
     [(js ''email'', email_required), (js ''bio'', example_field Textarea)]"

definition optional_config :: FormConfig where
  "optional_config = [(js ''bio'', example_field Textarea)]"

text \<open>A repeated password whose \<open>matchField\<close> names no configured field.\<close>

definition dangling_config :: FormConfig where
  "dangling_config =
     [(js ''confirm'', (example_field RepeatPassword)\<lparr>matchField := Some (js ''ghost'')\<rparr>)]"

text \<open>Configurations with a field named \<open>__proto__\<close>: a required text, a password.\<close>

definition proto_required_config :: FormConfig where
  "proto_required_config = [(js ''__proto__'', (example_field Text)\<lparr>required := Some True\<rparr>)]"

definition proto_password_config :: FormConfig where
  "proto_password_config = [(js ''__proto__'', password_field)]"

section \<open>Basic facts\<close>

lemma holds_None: "holds None P = False"
  by (simp add: holds_def)

lemma holds_Some: "holds (Some v) P = (v \<noteq> [] \<and> P v)"
  by (simp add: holds_def)

lemma truthy_None: "truthy None = False"
  by (simp add: truthy_def holds_def)

lemma truthy_Some: "truthy (Some v) = (v \<noteq> [])"
  by (simp add: truthy_def holds_def)

lemma js_nonempty: "js (c # s) \<noteq> []"
  by (simp add: js_def)

lemma config_get_Cons:
  "config_get ((k, f) # config) name = (if name = k then Some f else config_get config name)"
  by (simp add: config_get_def)

lemma config_get_Nil: "config_get [] name = None"
  by (simp add: config_get_def)

lemma config_get_keys: "(config_get config name = None) = (name \<notin> set (Object_keys config))"
  by (simp add: config_get_def Object_keys_def map_of_eq_None_iff)

lemma validateField_unknown:
  "config_get config name = None \<Longrightarrow> validateField config vals name value = None"
  by (simp add: validateField_def)

text \<open>On a falsy value only the required check can fire.\<close>

lemma validateField_falsy:
  assumes "config_get config name = Some field" and "\<not> truthy value"
  shows "validateField config vals name value =
           (if required field = Some True
            then Some (or_str (label field) name @ js '' is required.'') else None)"
proof -
  have "holds value P = False" for P
    using assms(2) by (cases "value") (simp_all add: holds_def truthy_def)
  then show ?thesis
    using assms by (simp add: validateField_def)
qed

lemma handleChange_values:
  "values_store (handleChange config st name value) = (values_store st)(name \<mapsto> value)"
  by (simp add: handleChange_def)

lemma handleChange_errors:
  "errors_store (handleChange config st name value) =
     (errors_store st)(name \<mapsto> validateField config (values_store st) name (Some value))"
  by (simp add: handleChange_def)

section \<open>The matcher decides the language of a pattern\<close>

lemma Nil_in_pow: "[] \<in> L \<Longrightarrow> [] \<in> lang_pow L k"
  by (induction k) auto

lemma Nil_in_pow_Suc: "[] \<in> lang_pow L (Suc k) \<Longrightarrow> [] \<in> L"
  by auto

lemma pow_mono_Suc: "[] \<in> L \<Longrightarrow> w \<in> lang_pow L j \<Longrightarrow> w \<in> lang_pow L (Suc j)"
  by (simp, metis append_Nil)

lemma pow_mono: "[] \<in> L \<Longrightarrow> j \<le> m \<Longrightarrow> w \<in> lang_pow L j \<Longrightarrow> w \<in> lang_pow L m"
proof (induction m)
  case 0
  then show ?case by simp
next
  case (Suc m)
  show ?case
  proof (cases "j = Suc m")
    case True
    with Suc.prems show ?thesis by simp
  next
    case False
    with Suc.prems have "j \<le> m" by simp
    with Suc have "w \<in> lang_pow L m" by blast
    with Suc.prems(1) show ?thesis by (rule pow_mono_Suc)
  qed
qed

lemma Cons_in_pow:
  "c # v \<in> lang_pow L k \<Longrightarrow>
     \<exists>u w j. c # u \<in> L \<and> w \<in> lang_pow L j \<and> v = u @ w \<and> (Suc j = k \<or> [] \<in> L \<and> j < k)"
proof (induction k)
  case 0
  then show ?case by simp
next
  case (Suc k)
  then obtain x y where xy: "c # v = x @ y" "x \<in> L" "y \<in> lang_pow L k"
    by auto
  show ?case
  proof (cases x)
    case Nil
    with xy have "c # v \<in> lang_pow L k" and e: "[] \<in> L"
      by simp_all
    with Suc.IH obtain u w j where
      "c # u \<in> L" "w \<in> lang_pow L j" "v = u @ w" "Suc j = k \<or> [] \<in> L \<and> j < k"
      by blast
    with e show ?thesis
      by (metis less_Suc_eq lessI)
  next
    case (Cons d u)
    with xy have "c # u \<in> L" "v = u @ y"
      by simp_all
    with xy(3) show ?thesis
      by blast
  qed
qed

lemma nullable_lang: "nullable r = ([] \<in> lang r)"
proof (induction r)
  case (AtLeast n r)
  show ?case
  proof (cases n)
    case 0
    have "[] \<in> lang_pow (lang r) 0" by simp
    then have "\<exists>k. [] \<in> lang_pow (lang r) k" by (rule exI)
    with 0 show ?thesis by simp
  next
    case (Suc m)
    have "(\<exists>k. Suc m \<le> k \<and> [] \<in> lang_pow (lang r) k) = ([] \<in> lang r)"
    proof
      assume "\<exists>k. Suc m \<le> k \<and> [] \<in> lang_pow (lang r) k"
      then obtain k where "Suc m \<le> k" "[] \<in> lang_pow (lang r) k" by blast
      then obtain k' where "[] \<in> lang_pow (lang r) (Suc k')"
        by (cases k) auto
      then show "[] \<in> lang r" by (rule Nil_in_pow_Suc)
    next
      assume "[] \<in> lang r"
      then have "[] \<in> lang_pow (lang r) (Suc m)" by (rule Nil_in_pow)
      then show "\<exists>k. Suc m \<le> k \<and> [] \<in> lang_pow (lang r) k" by blast
    qed
    with Suc AtLeast show ?thesis by simp
  qed
qed auto

lemma deriv_lang: "(v \<in> lang (deriv c r)) = (c # v \<in> lang r)"
proof (induction r arbitrary: v)
  case (Then r s)
  have "(c # v \<in> lang (Then r s)) =
          ((\<exists>u w. v = u @ w \<and> c # u \<in> lang r \<and> w \<in> lang s) \<or> ([] \<in> lang r \<and> c # v \<in> lang s))"
    by (auto simp: Cons_eq_append_conv)
  with Then show ?case
    by (auto simp: nullable_lang)
next
  case (AtLeast n r)
  have "(c # v \<in> lang (AtLeast n r)) =
          (\<exists>u w. v = u @ w \<and> c # u \<in> lang r \<and> w \<in> lang (AtLeast (n - 1) r))"
  proof
    assume "c # v \<in> lang (AtLeast n r)"
    then obtain k where k: "n \<le> k" "c # v \<in> lang_pow (lang r) k"
      by auto
    from Cons_in_pow [OF k(2)] obtain u w j where
      j: "c # u \<in> lang r" "w \<in> lang_pow (lang r) j" "v = u @ w"
         "Suc j = k \<or> [] \<in> lang r \<and> j < k"
      by blast
    have "\<exists>m. n - 1 \<le> m \<and> w \<in> lang_pow (lang r) m"
    proof (cases "Suc j = k")
      case True
      with k(1) have "n - 1 \<le> j" by simp
      with j(2) show ?thesis by blast
    next
      case False
      with j(4) have e: "[] \<in> lang r" by simp
      have "j \<le> max j (n - 1)" by simp
      from pow_mono [OF e this j(2)] have "w \<in> lang_pow (lang r) (max j (n - 1))" .
      moreover have "n - 1 \<le> max j (n - 1)" by simp
      ultimately show ?thesis by blast
    qed
    with j show "\<exists>u w. v = u @ w \<and> c # u \<in> lang r \<and> w \<in> lang (AtLeast (n - 1) r)"
      by auto
  next
    assume "\<exists>u w. v = u @ w \<and> c # u \<in> lang r \<and> w \<in> lang (AtLeast (n - 1) r)"
    then obtain u w m where m: "v = u @ w" "c # u \<in> lang r" "n - 1 \<le> m" "w \<in> lang_pow (lang r) m"
      by auto
    then have "c # v \<in> lang_pow (lang r) (Suc m)"
      by (simp, metis append_Cons)
    moreover from m(3) have "n \<le> Suc m" by simp
    ultimately show "c # v \<in> lang (AtLeast n r)"
      by (simp del: lang_pow.simps, blast)
  qed
  with AtLeast show ?case
    by auto
qed auto

lemma matches_lang: "matches r v = (v \<in> lang r)"
  by (induction v arbitrary: r) (simp_all add: nullable_lang deriv_lang)

lemma lang_any_run: "lang any_run = UNIV"
proof -
  have "v \<in> lang_pow (lang (NoneOf [])) (length v)" for v
  proof (induction v)
    case Nil
    then show ?case by simp
  next
    case (Cons c v)
    have "[c] \<in> lang (NoneOf [])" by (simp add: in_class_def)
    with Cons have "[c] @ v \<in> lang_pow (lang (NoneOf [])) (Suc (length v))"
      unfolding lang_pow.simps by blast
    then show ?case by simp
  qed
  then show ?thesis
    by (auto simp: any_run_def)
qed

lemma test_full_lang: "test_full r v = (v \<in> lang r)"
  by (simp add: test_full_def matches_lang)

lemma test_search_lang: "test_search r v = (\<exists>u m w. v = u @ m @ w \<and> m \<in> lang r)"
  by (auto simp: test_search_def matches_lang lang_any_run)

lemma test_search_NoneOf: "test_search (NoneOf items) v = (\<exists>c\<in>set v. \<not> in_class c items)"
proof -
  have "(\<exists>u m w. v = u @ m @ w \<and> m \<in> lang (NoneOf items)) = (\<exists>c\<in>set v. \<not> in_class c items)"
  proof
    assume "\<exists>u m w. v = u @ m @ w \<and> m \<in> lang (NoneOf items)"
    then obtain u c w where "v = u @ [c] @ w" "\<not> in_class c items"
      by auto
    then show "\<exists>c\<in>set v. \<not> in_class c items"
      by auto
  next
    assume "\<exists>c\<in>set v. \<not> in_class c items"
    then obtain c where "c \<in> set v" "\<not> in_class c items"
      by blast
    then obtain u w where "v = u @ [c] @ w" "[c] \<in> lang (NoneOf items)"
      by (auto simp: in_set_conv_decomp)
    then show "\<exists>u m w. v = u @ m @ w \<and> m \<in> lang (NoneOf items)"
      by blast
  qed
  then show ?thesis
    by (simp only: test_search_lang)
qed

lemma match_count_OneOf:
  "match_count (OneOf items) v = length (filter (\<lambda>c. in_class c items) v)"
  by (simp add: match_count_def)

lemma match_count_NoneOf:
  "match_count (NoneOf items) v = length (filter (\<lambda>c. \<not> in_class c items) v)"
  by (simp add: match_count_def)


section \<open>Empty values\<close>

text \<open>
  Claim C1. For a field whose \<open>required\<close> is absent or false, and for every value store,
  \<open>validateField\<close> on the empty string returns no error, whatever the type of the field
  and whatever its other constraints are.
\<close>

theorem optional_empty_no_error:
  assumes "config_get config name = Some field"
    and "required field = None \<or> required field = Some False"
  shows "validateField config vals name (Some []) = None"
proof -
  have "\<not> truthy (Some [])"
    by (simp add: truthy_Some)
  from validateField_falsy [OF assms(1) this] assms(2) show ?thesis
    by auto
qed

theorem optional_empty_no_error_witness:
  "config_get [(js ''secret'', constrained_field)] (js ''secret'') = Some constrained_field
   \<and> (required constrained_field = None \<or> required constrained_field = Some False)
   \<and> validateField [(js ''secret'', constrained_field)] Map.empty (js ''secret'') (Some []) = None"
proof -
  have g: "config_get [(js ''secret'', constrained_field)] (js ''secret'') = Some constrained_field"
    by (simp add: config_get_Cons)
  have r: "required constrained_field = None \<or> required constrained_field = Some False"
    by (simp add: constrained_field_def)
  from optional_empty_no_error [OF g r] g r show ?thesis
    by simp
qed

text \<open>
  Claim C2, as stated: a required field on the empty string gets the error made of the
  configured label, or of the key when no label is configured. A label configured as
  the empty string is falsy in \<open>field.label || name\<close>, so the key is used instead.
\<close>

theorem required_error_blank_label_counterexample:
  "validateField [(js ''f'', blank_label_field)] Map.empty (js ''f'') (Some [])
     \<noteq> Some (spec_required_error blank_label_field (js ''f''))"
  by (simp add: validateField_falsy [where field = blank_label_field] config_get_Cons truthy_Some
      blank_label_field_def example_field_def spec_required_error_def or_str_def js_def)

text \<open>
  Claim C2, amended. For a field with \<open>required = true\<close>, \<open>validateField\<close> on the empty
  string returns \<open>"<label> is required."\<close>, where the label is the configured label when
  it is a non-empty string and the key of the field otherwise; the type of the field
  and its other constraints play no part.
\<close>

theorem required_empty_error:
  assumes "config_get config name = Some field" and "required field = Some True"
  shows "validateField config vals name (Some []) =
           Some ((case label field of None \<Rightarrow> name | Some l \<Rightarrow> if l = [] then name else l)
                 @ js '' is required.'')"
proof -
  have "\<not> truthy (Some [])"
    by (simp add: truthy_Some)
  from validateField_falsy [OF assms(1) this] assms(2) show ?thesis
    by (simp add: or_str_def)
qed

theorem required_empty_error_witness:
  "config_get [(js ''f'', blank_label_field)] (js ''f'') = Some blank_label_field
   \<and> required blank_label_field = Some True
   \<and> validateField [(js ''f'', blank_label_field)] Map.empty (js ''f'') (Some [])
       = Some (js ''f is required.'')"
proof -
  have g: "config_get [(js ''f'', blank_label_field)] (js ''f'') = Some blank_label_field"
    by (simp add: config_get_Cons)
  have r: "required blank_label_field = Some True"
    by (simp add: blank_label_field_def)
  have "label blank_label_field = Some []"
    by (simp add: blank_label_field_def)
  with required_empty_error [OF g r, of Map.empty] g r show ?thesis
    by (simp add: js_def)
qed

section \<open>Type-specific rules\<close>

lemmas class_defs = ch_def lower_def upper_def digits_def in_class_def js_def

lemma validateField_Email:
  assumes "config_get config name = Some field" and "type field = Email" and "v \<noteq> []"
  shows "validateField config vals name (Some v) =
           (if \<not> test_full emailRegex v then Some (js ''Invalid email format.'')
            else if test_search emailCharsRegex v then Some (js ''Email contains invalid characters.'')
            else None)"
  using assms by (simp add: validateField_def holds_Some truthy_Some)

lemma validateField_Password:
  assumes "config_get config name = Some field" and "type field = Password" and "v \<noteq> []"
  shows "validateField config vals name (Some v) =
     (if num_and (minLength field) (\<lambda>k. int (length v) < k)
        then Some (js ''Password must be at least '' @ template (minLength field)
                   @ js '' characters.'')
      else if num_and (minSpecialChars field) (\<lambda>k. int (match_count specialCharRegex v) < k)
        then Some (js ''Password must contain at least '' @ template (minSpecialChars field)
                   @ js '' special character(s).'')
      else if num_and (minUppercase field) (\<lambda>k. int (match_count uppercaseRegex v) < k)
        then Some (js ''Password must contain at least '' @ template (minUppercase field)
                   @ js '' uppercase letter(s).'')
      else if num_and (minNumbers field) (\<lambda>k. int (match_count numberRegex v) < k)
        then Some (js ''Password must contain at least '' @ template (minNumbers field)
                   @ js '' number(s).'')
      else None)"
  using assms by (simp add: validateField_def holds_Some truthy_Some)

lemma counts_ab:
  "length (js ''ab'') = 2"
  by (simp_all add: js_def)

lemma counts_abcdefgh:
  "length (js ''abcdefgh'') = 8" "match_count specialCharRegex (js ''abcdefgh'') = 0"
  by (simp_all add: match_count_def specialCharRegex_def class_defs)

lemma counts_Abcdef1:
  "length (js ''Abcdef1!'') = 8" "match_count specialCharRegex (js ''Abcdef1!'') = 1"
  "match_count uppercaseRegex (js ''Abcdef1!'') = 1" "match_count numberRegex (js ''Abcdef1!'') = 1"
  by (simp_all add: match_count_def specialCharRegex_def uppercaseRegex_def numberRegex_def class_defs)

lemma counts_Abcdef12:
  "length (js ''Abcdef12!'') = 9" "match_count specialCharRegex (js ''Abcdef12!'') = 1"
  "match_count uppercaseRegex (js ''Abcdef12!'') = 1" "match_count numberRegex (js ''Abcdef12!'') = 2"
  by (simp_all add: match_count_def specialCharRegex_def uppercaseRegex_def numberRegex_def class_defs)

lemma message_special_1:
  "js ''Password must contain at least '' @ template (Some 1) @ js '' special character(s).''
     = js ''Password must contain at least 1 special character(s).''"
  by (simp add: template_def show_int_def show_nat.simps js_def digit_def)

lemma message_numbers_2:
  "js ''Password must contain at least '' @ template (Some 2) @ js '' number(s).''
     = js ''Password must contain at least 2 number(s).''"
  by (simp add: template_def show_int_def show_nat.simps js_def digit_def)

lemma message_length_8:
  "js ''Password must be at least '' @ template (Some 8) @ js '' characters.''
     = js ''Password must be at least 8 characters.''"
  by (simp add: template_def show_int_def show_nat.simps js_def digit_def)

text \<open>
  Claim C3. A password field runs its four checks in the order \<open>minLength\<close>,
  \<open>minSpecialChars\<close>, \<open>minUppercase\<close>, \<open>minNumbers\<close> and returns the message of the first
  one that fails. With \<open>{minLength: 8, minSpecialChars: 1, minUppercase: 1, minNumbers: 2}\<close>
  the value \<open>"abcdefgh"\<close> gets the special-character error, \<open>"Abcdef1!"\<close> the
  numbers error and \<open>"Abcdef12!"\<close> no error.
\<close>

theorem password_checks_in_order:
  assumes "config_get config name = Some field" and "type field = Password"
  shows "(\<forall>v. v \<noteq> [] \<longrightarrow>
            validateField config vals name (Some v) =
              (if num_and (minLength field) (\<lambda>k. int (length v) < k)
                 then Some (js ''Password must be at least '' @ template (minLength field)
                            @ js '' characters.'')
               else if num_and (minSpecialChars field)
                         (\<lambda>k. int (match_count specialCharRegex v) < k)
                 then Some (js ''Password must contain at least ''
                            @ template (minSpecialChars field) @ js '' special character(s).'')
               else if num_and (minUppercase field)
                         (\<lambda>k. int (match_count uppercaseRegex v) < k)
                 then Some (js ''Password must contain at least ''
                            @ template (minUppercase field) @ js '' uppercase letter(s).'')
               else if num_and (minNumbers field) (\<lambda>k. int (match_count numberRegex v) < k)
                 then Some (js ''Password must contain at least ''
                            @ template (minNumbers field) @ js '' number(s).'')
               else None))
       \<and> (minLength field = Some 8 \<and> minSpecialChars field = Some 1
            \<and> minUppercase field = Some 1 \<and> minNumbers field = Some 2 \<longrightarrow>
            validateField config vals name (Some (js ''abcdefgh''))
              = Some (js ''Password must contain at least 1 special character(s).'')
            \<and> validateField config vals name (Some (js ''Abcdef1!''))
              = Some (js ''Password must contain at least 2 number(s).'')
            \<and> validateField config vals name (Some (js ''Abcdef12!'')) = None)"
proof (intro conjI allI impI)
  fix v :: jsstring
  assume "v \<noteq> []"
  then show "validateField config vals name (Some v) =
              (if num_and (minLength field) (\<lambda>k. int (length v) < k)
                 then Some (js ''Password must be at least '' @ template (minLength field)
                            @ js '' characters.'')
               else if num_and (minSpecialChars field)
                         (\<lambda>k. int (match_count specialCharRegex v) < k)
                 then Some (js ''Password must contain at least ''
                            @ template (minSpecialChars field) @ js '' special character(s).'')
               else if num_and (minUppercase field)
                         (\<lambda>k. int (match_count uppercaseRegex v) < k)
                 then Some (js ''Password must contain at least ''
                            @ template (minUppercase field) @ js '' uppercase letter(s).'')
               else if num_and (minNumbers field) (\<lambda>k. int (match_count numberRegex v) < k)
                 then Some (js ''Password must contain at least ''
                            @ template (minNumbers field) @ js '' number(s).'')
               else None)"
    by (rule validateField_Password [OF assms])
next
  assume c: "minLength field = Some 8 \<and> minSpecialChars field = Some 1
            \<and> minUppercase field = Some 1 \<and> minNumbers field = Some 2"
  have ne: "js ''abcdefgh'' \<noteq> []"
    by (rule js_nonempty)
  show "validateField config vals name (Some (js ''abcdefgh''))
              = Some (js ''Password must contain at least 1 special character(s).'')"
    using c by (simp add: validateField_Password [OF assms ne] counts_abcdefgh num_and_def
        message_special_1)
next
  assume c: "minLength field = Some 8 \<and> minSpecialChars field = Some 1
            \<and> minUppercase field = Some 1 \<and> minNumbers field = Some 2"
  have ne: "js ''Abcdef1!'' \<noteq> []"
    by (rule js_nonempty)
  show "validateField config vals name (Some (js ''Abcdef1!''))
              = Some (js ''Password must contain at least 2 number(s).'')"
    using c by (simp add: validateField_Password [OF assms ne] counts_Abcdef1 num_and_def
        message_numbers_2)
next
  assume c: "minLength field = Some 8 \<and> minSpecialChars field = Some 1
            \<and> minUppercase field = Some 1 \<and> minNumbers field = Some 2"
  have ne: "js ''Abcdef12!'' \<noteq> []"
    by (rule js_nonempty)
  show "validateField config vals name (Some (js ''Abcdef12!'')) = None"
    using c by (simp add: validateField_Password [OF assms ne] counts_Abcdef12 num_and_def)
qed

theorem password_checks_in_order_witness:
  "config_get [(js ''password'', password_field)] (js ''password'') = Some password_field
   \<and> type password_field = Password
   \<and> validateField [(js ''password'', password_field)] Map.empty (js ''password'')
        (Some (js ''ab'')) = Some (js ''Password must be at least 8 characters.'')
   \<and> validateField [(js ''password'', password_field)] Map.empty (js ''password'')
        (Some (js ''abcdefgh''))
       = Some (js ''Password must contain at least 1 special character(s).'')
   \<and> validateField [(js ''password'', password_field)] Map.empty (js ''password'')
        (Some (js ''Abcdef1!'')) = Some (js ''Password must contain at least 2 number(s).'')
   \<and> validateField [(js ''password'', password_field)] Map.empty (js ''password'')
        (Some (js ''Abcdef12!'')) = None"
proof -
  have g: "config_get [(js ''password'', password_field)] (js ''password'') = Some password_field"
    by (simp add: config_get_Cons)
  have t: "type password_field = Password"
    by (simp add: password_field_def example_field_def)
  have c: "minLength password_field = Some 8 \<and> minSpecialChars password_field = Some 1
            \<and> minUppercase password_field = Some 1 \<and> minNumbers password_field = Some 2"
    by (simp add: password_field_def example_field_def)
  have ne: "js ''ab'' \<noteq> []"
    by (rule js_nonempty)
  note order = password_checks_in_order [OF g t, of Map.empty]
  from order ne have "validateField [(js ''password'', password_field)] Map.empty (js ''password'')
        (Some (js ''ab'')) = Some (js ''Password must be at least 8 characters.'')"
    using c by (simp add: counts_ab num_and_def message_length_8)
  with order g t c show ?thesis
    by simp
qed


lemma format_a_b_com: "test_full emailRegex (js ''a@b.com'')"
  by (simp add: test_full_def emailRegex_def class_defs)

lemma charset_a_b_com: "\<not> test_search emailCharsRegex (js ''a@b.com'')"
  by (simp add: test_search_def emailCharsRegex_def any_run_def class_defs)

lemma format_not_an_email: "\<not> test_full emailRegex (js ''not-an-email'')"
  by (simp add: test_full_def emailRegex_def class_defs)

lemma format_bang: "\<not> test_full emailRegex (js ''a@b.com!'')"
  by (simp add: test_full_def emailRegex_def class_defs)

lemma charset_bang: "test_search emailCharsRegex (js ''a@b.com!'')"
  by (simp add: test_search_def emailCharsRegex_def any_run_def class_defs)

lemma format_percent: "test_full emailRegex (js ''a%b@c.com'')"
  by (simp add: test_full_def emailRegex_def class_defs)

lemma charset_percent: "test_search emailCharsRegex (js ''a%b@c.com'')"
  by (simp add: test_search_def emailCharsRegex_def any_run_def class_defs)

lemma format_neq_charset:
  "js ''Invalid email format.'' \<noteq> js ''Email contains invalid characters.''"
  by (simp add: js_def)

lemma required_neq_charset:
  "x @ js '' is required.'' \<noteq> js ''Email contains invalid characters.''"
proof
  assume "x @ js '' is required.'' = js ''Email contains invalid characters.''"
  then have "last (butlast (x @ js '' is required.''))
               = last (butlast (js ''Email contains invalid characters.''))"
    by simp
  then show False
    by (simp add: js_def butlast_append)
qed

lemma email_field_config:
  "config_get [(js ''email'', example_field Email)] (js ''email'') = Some (example_field Email)"
  "type (example_field Email) = Email"
  by (simp_all add: config_get_Cons example_field_def)

text \<open>
  Claim C4, as stated, gives \<open>"a@b.com!"\<close> the character-set error. The format pattern
  ends in \<open>[a-zA-Z]{2,}$\<close>, so the trailing \<open>!\<close> already fails the format check, which
  comes first.
\<close>

theorem email_bang_counterexample:
  "validateField [(js ''email'', example_field Email)] Map.empty (js ''email'')
     (Some (js ''a@b.com!'')) \<noteq> Some (js ''Email contains invalid characters.'')"
proof -
  have "js ''a@b.com!'' \<noteq> []"
    by (rule js_nonempty)
  from validateField_Email [OF email_field_config this, of Map.empty] show ?thesis
    by (simp add: format_bang format_neq_charset)
qed

text \<open>
  Claim C4, amended. For an email field \<open>validateField\<close> returns no error on \<open>"a@b.com"\<close>
  and \<open>"Invalid email format."\<close> on \<open>"not-an-email"\<close> and on \<open>"a@b.com!"\<close>; on every
  non-empty value the format check precedes the character-set check and the first
  failure wins.
\<close>

theorem email_checks_in_order:
  assumes "config_get config name = Some field" and "type field = Email"
  shows "validateField config vals name (Some (js ''a@b.com'')) = None
       \<and> validateField config vals name (Some (js ''not-an-email''))
           = Some (js ''Invalid email format.'')
       \<and> validateField config vals name (Some (js ''a@b.com!''))
           = Some (js ''Invalid email format.'')
       \<and> (\<forall>v. v \<noteq> [] \<longrightarrow>
            validateField config vals name (Some v) =
              (if \<not> test_full emailRegex v then Some (js ''Invalid email format.'')
               else if test_search emailCharsRegex v
                 then Some (js ''Email contains invalid characters.'')
               else None))"
proof (intro conjI allI impI)
  have "js ''a@b.com'' \<noteq> []"
    by (rule js_nonempty)
  from validateField_Email [OF assms this]
  show "validateField config vals name (Some (js ''a@b.com'')) = None"
    by (simp add: format_a_b_com charset_a_b_com)
next
  have "js ''not-an-email'' \<noteq> []"
    by (rule js_nonempty)
  from validateField_Email [OF assms this]
  show "validateField config vals name (Some (js ''not-an-email''))
          = Some (js ''Invalid email format.'')"
    by (simp add: format_not_an_email)
next
  have "js ''a@b.com!'' \<noteq> []"
    by (rule js_nonempty)
  from validateField_Email [OF assms this]
  show "validateField config vals name (Some (js ''a@b.com!''))
          = Some (js ''Invalid email format.'')"
    by (simp add: format_bang)
next
  fix v :: jsstring
  assume "v \<noteq> []"
  then show "validateField config vals name (Some v) =
              (if \<not> test_full emailRegex v then Some (js ''Invalid email format.'')
               else if test_search emailCharsRegex v
                 then Some (js ''Email contains invalid characters.'')
               else None)"
    by (rule validateField_Email [OF assms])
qed

theorem email_checks_in_order_witness:
  "config_get [(js ''email'', example_field Email)] (js ''email'') = Some (example_field Email)
   \<and> type (example_field Email) = Email
   \<and> validateField [(js ''email'', example_field Email)] Map.empty (js ''email'')
        (Some (js ''a@b.com'')) = None
   \<and> validateField [(js ''email'', example_field Email)] Map.empty (js ''email'')
        (Some (js ''not-an-email'')) = Some (js ''Invalid email format.'')
   \<and> validateField [(js ''email'', example_field Email)] Map.empty (js ''email'')
        (Some (js ''a@b.com!'')) = Some (js ''Invalid email format.'')
   \<and> validateField [(js ''email'', example_field Email)] Map.empty (js ''email'')
        (Some (js ''a%b@c.com'')) = Some (js ''Email contains invalid characters.'')"
proof -
  note order = email_checks_in_order [OF email_field_config, of Map.empty]
  have "js ''a%b@c.com'' \<noteq> []"
    by (rule js_nonempty)
  with order have "validateField [(js ''email'', example_field Email)] Map.empty (js ''email'')
        (Some (js ''a%b@c.com'')) = Some (js ''Email contains invalid characters.'')"
    by (simp add: format_percent charset_percent)
  with order email_field_config show ?thesis
    by simp
qed

text \<open>
  Claim C10. On an email field the value \<open>"a%b@c.com"\<close> gets
  \<open>"Email contains invalid characters."\<close>: the format pattern admits \<open>%\<close> in the local
  part and the allowed-character check rejects it. Every value that gets this error
  is a non-empty string that passes the format check.
\<close>

theorem charset_error_reachable:
  assumes "config_get config name = Some field" and "type field = Email"
  shows "validateField config vals name (Some (js ''a%b@c.com''))
           = Some (js ''Email contains invalid characters.'')
       \<and> test_full emailRegex (js ''a%b@c.com'')
       \<and> test_search emailCharsRegex (js ''a%b@c.com'')
       \<and> (\<forall>value. validateField config vals name value
                     = Some (js ''Email contains invalid characters.'') \<longrightarrow>
              (\<exists>v. value = Some v \<and> v \<noteq> [] \<and> test_full emailRegex v
                   \<and> test_search emailCharsRegex v))"
proof (intro conjI allI impI)
  have "js ''a%b@c.com'' \<noteq> []"
    by (rule js_nonempty)
  from validateField_Email [OF assms this]
  show "validateField config vals name (Some (js ''a%b@c.com''))
           = Some (js ''Email contains invalid characters.'')"
    by (simp add: format_percent charset_percent)
next
  show "test_full emailRegex (js ''a%b@c.com'')"
    by (rule format_percent)
next
  show "test_search emailCharsRegex (js ''a%b@c.com'')"
    by (rule charset_percent)
next
  fix "value" :: jsvalue
  assume r: "validateField config vals name value = Some (js ''Email contains invalid characters.'')"
  show "\<exists>v. value = Some v \<and> v \<noteq> [] \<and> test_full emailRegex v \<and> test_search emailCharsRegex v"
  proof (cases "truthy value")
    case False
    from validateField_falsy [OF assms(1) this, of vals] r show ?thesis
      by (simp add: required_neq_charset required_neq_charset [symmetric] split: if_splits)
  next
    case True
    then obtain v where v: "value = Some v" "v \<noteq> []"
      by (cases "value") (simp_all add: truthy_None truthy_Some)
    from validateField_Email [OF assms v(2), of vals] r v show ?thesis
      by (simp add: format_neq_charset format_neq_charset [symmetric] split: if_splits)
  qed
qed

theorem charset_error_reachable_witness:
  "config_get [(js ''email'', example_field Email)] (js ''email'') = Some (example_field Email)
   \<and> type (example_field Email) = Email
   \<and> validateField [(js ''email'', example_field Email)] Map.empty (js ''email'')
        (Some (js ''a%b@c.com'')) = Some (js ''Email contains invalid characters.'')
   \<and> test_full emailRegex (js ''a%b@c.com'')"
  using charset_error_reachable [OF email_field_config, of Map.empty] email_field_config
  by simp


section \<open>Reset and full validation\<close>

lemma fold_assign:
  "fold (\<lambda>key m. assign m key v) ks m k =
     (if k \<in> set ks \<and> k \<noteq> js ''__proto__'' then Some v else m k)"
  by (induction ks arbitrary: m) (auto simp: assign_def)

lemma initialValues_apply:
  "initialValues config k =
     (if k \<in> set (Object_keys config) \<and> k \<noteq> js ''__proto__'' then Some [] else None)"
  by (simp add: initialValues_def fold_assign)

lemma reset_values: "values_store (reset config st) = initialValues config"
  by (simp add: reset_def)

lemma config_get_in_keys: "config_get config name = Some field \<Longrightarrow> name \<in> set (Object_keys config)"
  using config_get_keys [of config name] by auto

lemma validate_stored_own:
  "vals name \<noteq> None \<Longrightarrow>
     validate_stored config vals name = Inr (validateField config vals name (vals name))"
  by (auto simp: validate_stored_def)

text \<open>
  When the value store has an own property for every key, the loop of \<open>validateAll\<close>
  runs to its end; it records the error of every key except \<open>"__proto__"\<close>.
\<close>

lemma validateAll_loop_own:
  assumes "\<forall>k\<in>set ks. vals k \<noteq> None"
  shows "\<exists>errs. validateAll_loop config vals ks acc =
            Inr (errs, snd acc \<and> (\<forall>k\<in>set ks. \<not> truthy (validateField config vals k (vals k))))
          \<and> (\<forall>k. errs k = (if k \<in> set ks \<and> k \<noteq> js ''__proto__''
                             then Some (validateField config vals k (vals k)) else fst acc k))"
  using assms
proof (induction ks arbitrary: acc)
  case Nil
  show ?case
    by (intro exI [of _ "fst acc"]) simp
next
  case (Cons name names)
  let ?e = "validateField config vals name (vals name)"
  let ?acc = "(assign (fst acc) name ?e, if truthy ?e then False else snd acc)"
  from Cons.prems have own: "vals name \<noteq> None" and rest: "\<forall>k\<in>set names. vals k \<noteq> None"
    by simp_all
  from Cons.IH [OF rest, of ?acc] obtain errs where
    l: "validateAll_loop config vals names ?acc =
          Inr (errs, snd ?acc \<and> (\<forall>k\<in>set names. \<not> truthy (validateField config vals k (vals k))))"
    and e: "\<forall>k. errs k = (if k \<in> set names \<and> k \<noteq> js ''__proto__''
                             then Some (validateField config vals k (vals k)) else fst ?acc k)"
    by blast
  have "validateAll_loop config vals (name # names) acc =
          Inr (errs, snd acc \<and> (\<forall>k\<in>set (name # names).
                 \<not> truthy (validateField config vals k (vals k))))"
    using l own by (auto simp: validate_stored_own)
  moreover have "\<forall>k. errs k = (if k \<in> set (name # names) \<and> k \<noteq> js ''__proto__''
                             then Some (validateField config vals k (vals k)) else fst acc k)"
    using e by (auto simp: assign_def)
  ultimately show ?case
    by blast
qed

lemma validateAll_from_own:
  assumes "\<forall>k\<in>set (Object_keys config). values_store render k \<noteq> None"
  shows "\<exists>st'. validateAll_from config render st =
            Inr (\<forall>k\<in>set (Object_keys config).
                   \<not> truthy (validateField config (values_store render) k (values_store render k)),
                 st')
          \<and> values_store st' = values_store st
          \<and> (\<forall>k. errors_store st' k =
                (if k \<in> set (Object_keys config) \<and> k \<noteq> js ''__proto__''
                 then Some (validateField config (values_store render) k (values_store render k))
                 else None))"
proof -
  from validateAll_loop_own [OF assms, of config "(Map.empty, True)"] obtain errs where
    "validateAll_loop config (values_store render) (Object_keys config) (Map.empty, True) =
       Inr (errs, \<forall>k\<in>set (Object_keys config).
                 \<not> truthy (validateField config (values_store render) k (values_store render k)))"
    and "\<forall>k. errs k = (if k \<in> set (Object_keys config) \<and> k \<noteq> js ''__proto__''
                 then Some (validateField config (values_store render) k (values_store render k))
                 else None)"
    by auto
  then show ?thesis
    by (simp add: validateAll_from_def)
qed

lemma validateAll_values:
  "validateAll config st = Inr r \<Longrightarrow> values_store (snd r) = values_store st"
  by (auto simp: validateAll_def validateAll_from_def split: sum.splits)

lemma validateField_initial:
  assumes "config_get config name = Some field" and "name \<noteq> js ''__proto__''"
  shows "validateField config (initialValues config) name (initialValues config name) =
           (if required field = Some True
            then Some (or_str (label field) name @ js '' is required.'') else None)"
proof -
  have "initialValues config name = Some []"
    using config_get_in_keys [OF assms(1)] assms(2) by (simp add: initialValues_apply)
  moreover have "\<not> truthy (Some [])"
    by (simp add: truthy_Some)
  ultimately show ?thesis
    using validateField_falsy [OF assms(1), of "Some []"] by simp
qed

lemma truthy_required_msg: "truthy (Some (x @ js '' is required.''))"
  by (simp add: truthy_Some js_def)

text \<open>
  Claim C5, as stated, speaks of \<open>reset()\<close> followed by \<open>validateAll()\<close>. When an event
  handler makes both calls, the closure \<open>validateAll\<close> still reads the values of the
  render that created it, not the values \<open>reset\<close> has queued. In \<open>required_config\<close> the
  field \<open>email\<close> is required; in a render where it holds \<open>"a@b.com"\<close>, \<open>reset()\<close> followed
  at once by \<open>validateAll()\<close> returns true.
\<close>

theorem reset_validateAll_same_render_counterexample:
  "validateAll_from required_config
     (run required_config [Change (js ''email'') (js ''a@b.com'')])
     (reset required_config (run required_config [Change (js ''email'') (js ''a@b.com'')]))
   = Inr (True, \<lparr>values_store = initialValues required_config,
                 errors_store = [js ''email'' \<mapsto> None, js ''bio'' \<mapsto> None]\<rparr>)"
proof -
  let ?vals = "values_store (run required_config [Change (js ''email'') (js ''a@b.com'')])"
  have keys: "Object_keys required_config = [js ''email'', js ''bio'']"
    by (simp add: required_config_def Object_keys_def)
  have ne: "js ''bio'' \<noteq> js ''email''" "js ''email'' \<noteq> js ''__proto__''"
    "js ''bio'' \<noteq> js ''__proto__''"
    by (simp_all add: js_def)
  have v: "?vals (js ''email'') = Some (js ''a@b.com'')" "?vals (js ''bio'') = Some []"
    using ne by (simp_all add: run_def handleChange_values useFormValidation_def
        initialValues_apply keys)
  have g: "config_get required_config (js ''email'') = Some email_required"
    "config_get required_config (js ''bio'') = Some (example_field Textarea)"
    using ne by (simp_all add: required_config_def config_get_Cons)
  have t: "type email_required = Email"
    by (simp add: email_required_def example_field_def)
  have "js ''a@b.com'' \<noteq> []"
    by (rule js_nonempty)
  from validateField_Email [OF g(1) t this, of ?vals]
  have e: "validateField required_config ?vals (js ''email'') (Some (js ''a@b.com'')) = None"
    by (simp add: format_a_b_com charset_a_b_com)
  have "\<not> truthy (Some [])"
    by (simp add: truthy_Some)
  from validateField_falsy [OF g(2) this, of ?vals]
  have b: "validateField required_config ?vals (js ''bio'') (Some []) = None"
    by (simp add: example_field_def)
  show ?thesis
    using ne by (simp add: validateAll_from_def keys validate_stored_def v e b assign_def
        truthy_None reset_def)
qed

text \<open>
  Claim C5, amended. Let no field of the configuration be named \<open>"__proto__"\<close>. Then
  \<open>reset()\<close> followed, from the next render, by \<open>validateAll()\<close> returns false and stores
  the required-error of every field configured with \<open>required = true\<close> when the
  configuration has such a field, and returns true when no field is required.
\<close>

theorem reset_then_validateAll:
  assumes "js ''__proto__'' \<notin> set (Object_keys config)"
  shows "\<exists>valid st'. validateAll config (reset config st) = Inr (valid, st')
     \<and> ((\<exists>name field. config_get config name = Some field \<and> required field = Some True) \<longrightarrow>
          valid = False
          \<and> (\<forall>name field. config_get config name = Some field \<and> required field = Some True \<longrightarrow>
                errors_store st' name
                  = Some (Some (or_str (label field) name @ js '' is required.''))))
     \<and> (\<not> (\<exists>name field. config_get config name = Some field \<and> required field = Some True) \<longrightarrow>
          valid = True)"
proof -
  let ?init = "initialValues config"
  let ?ok = "\<forall>k\<in>set (Object_keys config). \<not> truthy (validateField config ?init k (?init k))"
  have np: "name \<noteq> js ''__proto__''" if "name \<in> set (Object_keys config)" for name
    using that assms by auto
  have "\<forall>k\<in>set (Object_keys config). values_store (reset config st) k \<noteq> None"
    using np by (simp add: reset_values initialValues_apply)
  from validateAll_from_own [OF this, of "reset config st"] obtain st' where
    r: "validateAll config (reset config st) = Inr (?ok, st')"
    and e: "\<forall>k. errors_store st' k =
                (if k \<in> set (Object_keys config) \<and> k \<noteq> js ''__proto__''
                 then Some (validateField config ?init k (?init k)) else None)"
    by (auto simp: validateAll_def reset_values)
  have a: "?ok = False \<and> (\<forall>name field. config_get config name = Some field
                 \<and> required field = Some True \<longrightarrow>
                errors_store st' name
                  = Some (Some (or_str (label field) name @ js '' is required.'')))"
    if "\<exists>name field. config_get config name = Some field \<and> required field = Some True"
  proof
    from that obtain name field where
      f: "config_get config name = Some field" "required field = Some True"
      by blast
    have k: "name \<in> set (Object_keys config)"
      using f(1) by (rule config_get_in_keys)
    have "truthy (validateField config ?init name (?init name))"
      using f(2) by (simp add: validateField_initial [OF f(1) np [OF k]] truthy_required_msg)
    with k show "?ok = False"
      by blast
  next
    show "\<forall>name field. config_get config name = Some field \<and> required field = Some True \<longrightarrow>
            errors_store st' name = Some (Some (or_str (label field) name @ js '' is required.''))"
    proof (intro allI impI)
      fix name field
      assume f: "config_get config name = Some field \<and> required field = Some True"
      then have k: "name \<in> set (Object_keys config)"
        by (simp add: config_get_in_keys)
      with f e np [OF k]
      show "errors_store st' name = Some (Some (or_str (label field) name @ js '' is required.''))"
        by (simp add: validateField_initial)
    qed
  qed
  have b: "?ok = True"
    if none: "\<not> (\<exists>name field. config_get config name = Some field \<and> required field = Some True)"
  proof -
    have "\<not> truthy (validateField config ?init k (?init k))"
      if k: "k \<in> set (Object_keys config)" for k
    proof -
      from k obtain field where g: "config_get config k = Some field"
        using config_get_keys [of config k] by auto
      with none have "required field \<noteq> Some True"
        by blast
      then show ?thesis
        by (simp add: validateField_initial [OF g np [OF k]] truthy_None)
    qed
    then show ?thesis
      by simp
  qed
  from r a b show ?thesis
    by blast
qed

theorem reset_then_validateAll_witness:
  "js ''__proto__'' \<notin> set (Object_keys required_config)
   \<and> (\<exists>name field. config_get required_config name = Some field \<and> required field = Some True)
   \<and> (\<exists>st'. validateAll required_config
            (reset required_config (run required_config [Change (js ''email'') (js ''x'')]))
          = Inr (False, st')
        \<and> errors_store st' (js ''email'') = Some (Some (js ''Email is required.'')))
   \<and> js ''__proto__'' \<notin> set (Object_keys optional_config)
   \<and> \<not> (\<exists>name field. config_get optional_config name = Some field \<and> required field = Some True)
   \<and> (\<exists>st'. validateAll optional_config
            (reset optional_config (run optional_config [Change (js ''bio'') (js ''x'')]))
          = Inr (True, st'))"
proof -
  let ?st = "run required_config [Change (js ''email'') (js ''x'')]"
  let ?st' = "run optional_config [Change (js ''bio'') (js ''x'')]"
  have p: "js ''__proto__'' \<notin> set (Object_keys required_config)"
    by (simp add: required_config_def Object_keys_def js_def)
  have p': "js ''__proto__'' \<notin> set (Object_keys optional_config)"
    by (simp add: optional_config_def Object_keys_def js_def)
  have g: "config_get required_config (js ''email'') = Some email_required
           \<and> required email_required = Some True"
    by (simp add: required_config_def config_get_Cons email_required_def)
  then have ex: "\<exists>name field. config_get required_config name = Some field
                   \<and> required field = Some True"
    by blast
  have msg: "or_str (label email_required) (js ''email'') @ js '' is required.''
               = js ''Email is required.''"
    by (simp add: or_str_def js_def email_required_def)
  have no: "\<not> (\<exists>name field. config_get optional_config name = Some field
                   \<and> required field = Some True)"
    by (auto simp: optional_config_def config_get_Cons config_get_Nil example_field_def
        split: if_splits)
  from reset_then_validateAll [OF p, of ?st] ex obtain st1 where
    r: "validateAll required_config (reset required_config ?st) = Inr (False, st1)"
    and "\<forall>name field. config_get required_config name = Some field
                     \<and> required field = Some True \<longrightarrow>
            errors_store st1 name = Some (Some (or_str (label field) name @ js '' is required.''))"
    by blast
  with g have "errors_store st1 (js ''email'')
              = Some (Some (or_str (label email_required) (js ''email'') @ js '' is required.''))"
    by blast
  with msg have b: "errors_store st1 (js ''email'') = Some (Some (js ''Email is required.''))"
    by simp
  from reset_then_validateAll [OF p', of ?st'] no obtain st2 where
    c: "validateAll optional_config (reset optional_config ?st') = Inr (True, st2)"
    by blast
  from p ex r b p' no c show ?thesis
    by blast
qed

section \<open>Single-field updates\<close>

lemma validateField_RepeatPassword:
  assumes "config_get config name = Some field" and "type field = RepeatPassword" and "v \<noteq> []"
  shows "validateField config vals name (Some v) =
     (if Some v \<noteq> vals (or_str (matchField field) (js ''password''))
      then Some (js ''Passwords do not match.'') else None)"
  using assms by (simp add: validateField_def holds_Some truthy_Some)

lemma signup_fields:
  "config_get signup_config (js ''password'') = Some (example_field Password)"
  "config_get signup_config (js ''repeatPassword'')
     = Some ((example_field RepeatPassword)\<lparr>matchField := Some (js ''password'')\<rparr>)"
  by (simp_all add: signup_config_def config_get_Cons js_def)

lemma signup_keys: "Object_keys signup_config = [js ''password'', js ''repeatPassword'']"
  by (simp add: signup_config_def Object_keys_def)

lemma names_differ: "js ''repeatPassword'' \<noteq> js ''password''"
  by (simp add: js_def)

lemma stale_run_values:
  "values_store (run signup_config stale_run) (js ''password'') = Some (js ''b'')"
  "values_store (run signup_config stale_run) (js ''repeatPassword'') = Some (js ''a'')"
  by (simp_all add: run_def stale_run_def handleChange_values names_differ)

lemma validateField_signup_repeat:
  assumes "v \<noteq> []"
  shows "validateField signup_config vals (js ''repeatPassword'') (Some v) =
           (if Some v \<noteq> vals (js ''password'') then Some (js ''Passwords do not match.'')
            else None)"
proof -
  have "or_str (Some (js ''password'')) (js ''password'') = js ''password''"
    by (simp add: or_str_def js_nonempty)
  then show ?thesis
    by (simp add: validateField_RepeatPassword [OF signup_fields(2) _ assms] example_field_def)
qed

lemma stale_run_error:
  "errors_store (run signup_config stale_run) (js ''repeatPassword'') = Some None"
proof -
  let ?s1 = "handleChange signup_config (useFormValidation signup_config) (js ''password'') (js ''a'')"
  have "values_store ?s1 (js ''password'') = Some (js ''a'')"
    by (simp add: handleChange_values)
  then have "validateField signup_config (values_store ?s1) (js ''repeatPassword'')
               (Some (js ''a'')) = None"
    by (simp add: validateField_signup_repeat js_nonempty)
  then show ?thesis
    by (simp add: run_def stale_run_def handleChange_errors names_differ)
qed

lemma stale_run_revalidated:
  "validateField signup_config (values_store (run signup_config stale_run)) (js ''repeatPassword'')
     (values_store (run signup_config stale_run) (js ''repeatPassword''))
   = Some (js ''Passwords do not match.'')"
proof -
  have "js ''a'' \<noteq> js ''b''"
    by (simp add: js_def)
  then show ?thesis
    by (simp add: stale_run_values validateField_signup_repeat js_nonempty)
qed

text \<open>
  Claim C6. A change of a configured field \<open>name\<close> writes \<open>values[name]\<close> and
  \<open>errors[name]\<close> and leaves every other entry of both stores as it was: no other field
  is validated again. In the run \<open>stale_run\<close> the repeated password was accepted against
  the password \<open>"a"\<close>; after the password changes to \<open>"b"\<close> its stored error is still
  \<open>null\<close>, while validating it against the current values gives the mismatch error.
\<close>

theorem update_changes_one_field:
  assumes "name \<in> set (Object_keys config)"
  shows "values_store (handleChange config st name value) name = Some value
       \<and> errors_store (handleChange config st name value) name
           = Some (validateField config (values_store st) name (Some value))
       \<and> (\<forall>other. other \<noteq> name \<longrightarrow>
             values_store (handleChange config st name value) other = values_store st other
           \<and> errors_store (handleChange config st name value) other = errors_store st other)
       \<and> errors_store (run signup_config stale_run) (js ''repeatPassword'') = Some None
       \<and> validateField signup_config (values_store (run signup_config stale_run))
             (js ''repeatPassword'')
             (values_store (run signup_config stale_run) (js ''repeatPassword''))
           = Some (js ''Passwords do not match.'')"
  by (simp add: handleChange_values handleChange_errors stale_run_error stale_run_revalidated)

theorem update_changes_one_field_witness:
  "js ''password'' \<in> set (Object_keys signup_config)
   \<and> errors_store (handleChange signup_config
        (run signup_config [Change (js ''password'') (js ''a''),
                            Change (js ''repeatPassword'') (js ''a'')])
        (js ''password'') (js ''b'')) (js ''repeatPassword'')
      = errors_store (run signup_config [Change (js ''password'') (js ''a''),
                            Change (js ''repeatPassword'') (js ''a'')]) (js ''repeatPassword'')
   \<and> values_store (handleChange signup_config
        (run signup_config [Change (js ''password'') (js ''a''),
                            Change (js ''repeatPassword'') (js ''a'')])
        (js ''password'') (js ''b'')) (js ''password'') = Some (js ''b'')"
proof -
  have k: "js ''password'' \<in> set (Object_keys signup_config)"
    by (simp add: signup_keys)
  from update_changes_one_field [OF k] names_differ k show ?thesis
    by blast
qed

text \<open>
  Claim C9. A change whose name is not a key of the configuration stores the value under
  that name and stores \<open>null\<close> as its error; all other entries of both stores are kept.
  When the name had no entry in one of the stores, the state after the change differs
  from the state before.
\<close>

theorem update_unconfigured_adds_entries:
  assumes "name \<notin> set (Object_keys config)"
  shows "values_store (handleChange config st name value) name = Some value
       \<and> errors_store (handleChange config st name value) name = Some None
       \<and> (\<forall>other. other \<noteq> name \<longrightarrow>
             values_store (handleChange config st name value) other = values_store st other
           \<and> errors_store (handleChange config st name value) other = errors_store st other)
       \<and> (name \<notin> dom (values_store st) \<or> name \<notin> dom (errors_store st) \<longrightarrow>
             handleChange config st name value \<noteq> st)"
proof -
  have "config_get config name = None"
    using assms by (simp add: config_get_keys)
  then have n: "validateField config (values_store st) name (Some value) = None"
    by (rule validateField_unknown)
  have "handleChange config st name value \<noteq> st"
    if "name \<notin> dom (values_store st) \<or> name \<notin> dom (errors_store st)"
  proof
    assume "handleChange config st name value = st"
    then have "values_store (handleChange config st name value) name = values_store st name"
      and "errors_store (handleChange config st name value) name = errors_store st name"
      by simp_all
    then have "((values_store st)(name \<mapsto> value)) name = values_store st name"
      and "((errors_store st)(name \<mapsto> validateField config (values_store st) name (Some value))) name
             = errors_store st name"
      by (simp_all only: handleChange_values handleChange_errors)
    then have "values_store st name \<noteq> None" and "errors_store st name \<noteq> None"
      by (simp_all only: fun_upd_same) (metis option.distinct(1))+
    with that show False
      by (auto simp: domIff)
  qed
  with n show ?thesis
    by (simp add: handleChange_values handleChange_errors)
qed

theorem update_unconfigured_adds_entries_witness:
  "js ''ghost'' \<notin> set (Object_keys signup_config)
   \<and> values_store (handleChange signup_config (useFormValidation signup_config)
        (js ''ghost'') (js ''x'')) (js ''ghost'') = Some (js ''x'')
   \<and> errors_store (handleChange signup_config (useFormValidation signup_config)
        (js ''ghost'') (js ''x'')) (js ''ghost'') = Some None
   \<and> values_store (useFormValidation signup_config) (js ''ghost'') = None
   \<and> errors_store (useFormValidation signup_config) (js ''ghost'') = None
   \<and> handleChange signup_config (useFormValidation signup_config) (js ''ghost'') (js ''x'')
       \<noteq> useFormValidation signup_config"
proof -
  have k: "js ''ghost'' \<notin> set (Object_keys signup_config)"
    by (simp add: signup_keys js_def)
  then have v: "values_store (useFormValidation signup_config) (js ''ghost'') = None"
    by (simp add: useFormValidation_def initialValues_apply)
  have e: "errors_store (useFormValidation signup_config) (js ''ghost'') = None"
    by (simp add: useFormValidation_def)
  from v have "js ''ghost'' \<notin> dom (values_store (useFormValidation signup_config))"
    by (simp add: domIff)
  with update_unconfigured_adds_entries [OF k] k v e show ?thesis
    by blast
qed


section \<open>The keys of the value store\<close>

lemma dom_initialValues:
  "dom (initialValues config) = set (Object_keys config) - {js ''__proto__''}"
  by (auto simp: initialValues_apply domIff split: if_splits)

lemma exec_ValidateAll_values: "values_store (exec config st ValidateAll) = values_store st"
  by (auto simp: validateAll_values split: sum.splits)

lemma exec_dom:
  assumes "js ''__proto__'' \<notin> set (Object_keys config)"
    and "configured config a" and "dom (values_store st) = set (Object_keys config)"
  shows "dom (values_store (exec config st a)) = set (Object_keys config)"
proof (cases a)
  case (Change name "value")
  with assms show ?thesis
    by (auto simp: handleChange_values)
next
  case ValidateAll
  with assms show ?thesis
    by (simp only: exec_ValidateAll_values)
next
  case Reset
  with assms(1) show ?thesis
    by (simp add: reset_values dom_initialValues)
qed

lemma foldl_exec_dom:
  assumes "js ''__proto__'' \<notin> set (Object_keys config)"
    and "\<forall>a\<in>set acts. configured config a"
    and "dom (values_store st) = set (Object_keys config)"
  shows "dom (values_store (foldl (exec config) st acts)) = set (Object_keys config)"
  using assms(2,3)
proof (induction acts arbitrary: st)
  case Nil
  then show ?case by simp
next
  case (Cons a acts)
  then show ?case
    by (simp add: exec_dom [OF assms(1)])
qed

lemma run_dom:
  "js ''__proto__'' \<notin> set (Object_keys config) \<Longrightarrow> \<forall>a\<in>set acts. configured config a \<Longrightarrow>
     dom (values_store (run config acts)) = set (Object_keys config)"
  by (simp add: run_def foldl_exec_dom useFormValidation_def dom_initialValues)

text \<open>Changes of configured fields never bring a key into the value store that is not configured.\<close>

lemma exec_dom_subset:
  assumes "configured config a" and "dom (values_store st) \<subseteq> set (Object_keys config)"
  shows "dom (values_store (exec config st a)) \<subseteq> set (Object_keys config)"
proof (cases a)
  case (Change name "value")
  with assms show ?thesis
    by (auto simp: handleChange_values)
next
  case ValidateAll
  with assms show ?thesis
    by (simp only: exec_ValidateAll_values)
next
  case Reset
  then show ?thesis
    by (auto simp: reset_values dom_initialValues)
qed

lemma foldl_exec_dom_subset:
  assumes "\<forall>a\<in>set acts. configured config a"
    and "dom (values_store st) \<subseteq> set (Object_keys config)"
  shows "dom (values_store (foldl (exec config) st acts)) \<subseteq> set (Object_keys config)"
  using assms
proof (induction acts arbitrary: st)
  case Nil
  then show ?case by simp
next
  case (Cons a acts)
  then show ?case
    by (simp add: exec_dom_subset)
qed

lemma run_dom_subset:
  "\<forall>a\<in>set acts. configured config a \<Longrightarrow>
     dom (values_store (run config acts)) \<subseteq> set (Object_keys config)"
  unfolding run_def
  by (rule foldl_exec_dom_subset) (auto simp: useFormValidation_def dom_initialValues)

text \<open>Every key except \<open>"__proto__"\<close> has an own entry in every state of every run.\<close>

lemma exec_keys_stored: "keys_stored config st \<Longrightarrow> keys_stored config (exec config st a)"
proof (cases a)
  case (Change name "value")
  assume "keys_stored config st"
  with Change show ?thesis
    by (auto simp: keys_stored_def handleChange_values)
next
  case ValidateAll
  assume "keys_stored config st"
  with ValidateAll show ?thesis
    by (simp only: keys_stored_def exec_ValidateAll_values)
next
  case Reset
  then show ?thesis
    by (simp add: keys_stored_def reset_values initialValues_apply)
qed

lemma foldl_exec_keys_stored:
  "keys_stored config st \<Longrightarrow> keys_stored config (foldl (exec config) st acts)"
  by (induction acts arbitrary: st) (simp_all add: exec_keys_stored)

lemma run_keys_stored: "keys_stored config (run config acts)"
  unfolding run_def
  by (rule foldl_exec_keys_stored) (simp add: keys_stored_def useFormValidation_def initialValues_apply)

lemma validateAll_returns:
  assumes "js ''__proto__'' \<notin> set (Object_keys config)"
  shows "\<exists>valid st'. validateAll config (run config acts) = Inr (valid, st')"
proof -
  have "\<forall>k\<in>set (Object_keys config). values_store (run config acts) k \<noteq> None"
    using run_keys_stored [of config acts] assms by (auto simp: keys_stored_def)
  from validateAll_from_own [OF this, of "run config acts"] show ?thesis
    by (auto simp: validateAll_def)
qed

text \<open>
  Claim C7, as stated, has the key set of the value store equal to the key set of the
  configuration in every reachable state. A change event whose name is not configured
  adds that name to the store.
\<close>

theorem key_set_counterexample:
  "dom (values_store (run optional_config [Change (js ''ghost'') (js ''x'')]))
     \<noteq> set (Object_keys optional_config)"
proof -
  have "js ''ghost'' \<in> dom (values_store (run optional_config [Change (js ''ghost'') (js ''x'')]))"
    by (simp add: run_def handleChange_values)
  moreover have "js ''ghost'' \<notin> set (Object_keys optional_config)"
    by (simp add: optional_config_def Object_keys_def js_def)
  ultimately show ?thesis
    by blast
qed

text \<open>
  Claim C7, amended. Let no field of the configuration be named \<open>"__proto__"\<close>. At
  construction and after \<open>reset\<close> the value store maps every configured key to the empty
  string and holds no other key. In every state reached by \<open>validateAll\<close>, \<open>reset\<close> and
  changes of configured fields, the key set of the value store is the key set of the
  configuration. A change under a name that is not configured adds that name to the
  key set of the value store, which then differs from the key set of the configuration.
\<close>

theorem key_set_invariant:
  assumes "js ''__proto__'' \<notin> set (Object_keys config)"
  shows "(\<forall>k. values_store (useFormValidation config) k
            = (if k \<in> set (Object_keys config) then Some [] else None))
   \<and> (\<forall>st k. values_store (reset config st) k
            = (if k \<in> set (Object_keys config) then Some [] else None))
   \<and> ((\<forall>a\<in>set acts. configured config a) \<longrightarrow>
         dom (values_store (run config acts)) = set (Object_keys config))
   \<and> (\<forall>st name value. name \<notin> set (Object_keys config) \<longrightarrow>
         dom (values_store (handleChange config st name value))
           = insert name (dom (values_store st))
         \<and> dom (values_store (handleChange config st name value)) \<noteq> set (Object_keys config))"
proof (intro conjI allI impI)
  fix k
  show "values_store (useFormValidation config) k
          = (if k \<in> set (Object_keys config) then Some [] else None)"
    using assms by (auto simp: useFormValidation_def initialValues_apply)
next
  fix st k
  show "values_store (reset config st) k = (if k \<in> set (Object_keys config) then Some [] else None)"
    using assms by (auto simp: reset_values initialValues_apply)
next
  assume "\<forall>a\<in>set acts. configured config a"
  with assms show "dom (values_store (run config acts)) = set (Object_keys config)"
    by (rule run_dom)
next
  fix st name "value"
  show "dom (values_store (handleChange config st name value)) = insert name (dom (values_store st))"
    by (simp add: handleChange_values)
next
  fix st name "value"
  assume "name \<notin> set (Object_keys config)"
  moreover have "name \<in> dom (values_store (handleChange config st name value))"
    by (simp add: handleChange_values)
  ultimately show "dom (values_store (handleChange config st name value)) \<noteq> set (Object_keys config)"
    by blast
qed

theorem key_set_invariant_witness:
  "js ''__proto__'' \<notin> set (Object_keys signup_config)
   \<and> configured signup_config (Change (js ''password'') (js ''a''))
   \<and> configured signup_config (Change (js ''repeatPassword'') (js ''b''))
   \<and> dom (values_store (run signup_config
        [Change (js ''password'') (js ''a''), ValidateAll, Reset,
         Change (js ''repeatPassword'') (js ''b'')]))
      = {js ''password'', js ''repeatPassword''}
   \<and> js ''ghost'' \<notin> set (Object_keys signup_config)
   \<and> dom (values_store (handleChange signup_config (useFormValidation signup_config)
        (js ''ghost'') (js ''x'')))
      = insert (js ''ghost'') (dom (values_store (useFormValidation signup_config)))"
proof -
  have p: "js ''__proto__'' \<notin> set (Object_keys signup_config)"
    by (simp add: signup_keys js_def)
  have g: "js ''ghost'' \<notin> set (Object_keys signup_config)"
    by (simp add: signup_keys js_def)
  have c: "\<forall>a\<in>set [Change (js ''password'') (js ''a''), ValidateAll, Reset,
             Change (js ''repeatPassword'') (js ''b'')]. configured signup_config a"
    by (simp add: signup_keys)
  note inv = key_set_invariant [OF p, of "[Change (js ''password'') (js ''a''), ValidateAll,
         Reset, Change (js ''repeatPassword'') (js ''b'')]"]
  from inv c have "dom (values_store (run signup_config
        [Change (js ''password'') (js ''a''), ValidateAll, Reset,
         Change (js ''repeatPassword'') (js ''b'')])) = set (Object_keys signup_config)"
    by blast
  then have d: "dom (values_store (run signup_config
        [Change (js ''password'') (js ''a''), ValidateAll, Reset,
         Change (js ''repeatPassword'') (js ''b'')])) = {js ''password'', js ''repeatPassword''}"
    by (simp add: signup_keys)
  from inv g have "dom (values_store (handleChange signup_config (useFormValidation signup_config)
        (js ''ghost'') (js ''x'')))
      = insert (js ''ghost'') (dom (values_store (useFormValidation signup_config)))"
    by blast
  with p g c d show ?thesis
    by simp
qed

section \<open>A dangling match field\<close>

lemma dangling_field:
  "config_get dangling_config (js ''confirm'')
     = Some ((example_field RepeatPassword)\<lparr>matchField := Some (js ''ghost'')\<rparr>)"
  by (simp add: dangling_config_def config_get_Cons)

lemma validateField_dangling_confirm:
  assumes "v \<noteq> []"
  shows "validateField dangling_config vals (js ''confirm'') (Some v) =
           (if Some v \<noteq> vals (js ''ghost'') then Some (js ''Passwords do not match.'')
            else None)"
proof -
  have "or_str (Some (js ''ghost'')) (js ''password'') = js ''ghost''"
    by (simp add: or_str_def js_nonempty)
  then show ?thesis
    by (simp add: validateField_RepeatPassword [OF dangling_field _ assms] example_field_def)
qed

text \<open>
  Claim C8, as stated, gives every non-empty value of a repeated password with a
  dangling \<open>matchField\<close> the mismatch error. After a change event under the dangling
  name, the value store has an entry for it, and an equal value is accepted.
\<close>

theorem dangling_match_counterexample:
  "validateField dangling_config
     (values_store (run dangling_config [Change (js ''ghost'') (js ''abc'')]))
     (js ''confirm'') (Some (js ''abc'')) \<noteq> Some (js ''Passwords do not match.'')"
proof -
  have "values_store (run dangling_config [Change (js ''ghost'') (js ''abc'')]) (js ''ghost'')
          = Some (js ''abc'')"
    by (simp add: run_def handleChange_values)
  then have "validateField dangling_config
     (values_store (run dangling_config [Change (js ''ghost'') (js ''abc'')]))
     (js ''confirm'') (Some (js ''abc'')) = None"
    by (simp add: validateField_dangling_confirm js_nonempty)
  then show ?thesis
    by simp
qed

text \<open>
  Claim C8, amended. Let the target of a \<open>repeatPassword\<close> field be its \<open>matchField\<close>, or
  \<open>"password"\<close> when that is absent or empty, and let the target be no key of the
  configuration. Then a non-empty value gets \<open>"Passwords do not match."\<close> exactly when
  the value store does not hold that same value under the target; so it gets the error
  in every state reached by \<open>validateAll\<close>, \<open>reset\<close> and changes of configured fields,
  where the store has no entry under the target. No operation throws when no field of
  the configuration is named \<open>"__proto__"\<close>: \<open>validateField\<close> on a string, \<open>handleChange\<close>
  and \<open>reset\<close> have no failing branch, and \<open>validateAll\<close> returns in every state of every
  run.
\<close>

theorem dangling_match_mismatch:
  "(\<forall>name field v vals.
       config_get config name = Some field \<and> type field = RepeatPassword
       \<and> or_str (matchField field) (js ''password'') \<notin> set (Object_keys config)
       \<and> v \<noteq> [] \<longrightarrow>
       validateField config vals name (Some v)
         = (if vals (or_str (matchField field) (js ''password'')) = Some v then None
            else Some (js ''Passwords do not match.'')))
   \<and> (\<forall>name field v acts.
       config_get config name = Some field \<and> type field = RepeatPassword
       \<and> or_str (matchField field) (js ''password'') \<notin> set (Object_keys config)
       \<and> v \<noteq> [] \<and> (\<forall>a\<in>set acts. configured config a) \<longrightarrow>
       validateField config (values_store (run config acts)) name (Some v)
         = Some (js ''Passwords do not match.''))
   \<and> (js ''__proto__'' \<notin> set (Object_keys config) \<longrightarrow>
       (\<forall>acts. \<exists>valid st'. validateAll config (run config acts) = Inr (valid, st')))"
proof (intro conjI allI impI)
  fix name field and v :: jsstring and vals :: FormValues
  assume "config_get config name = Some field \<and> type field = RepeatPassword
       \<and> or_str (matchField field) (js ''password'') \<notin> set (Object_keys config)
       \<and> v \<noteq> []"
  then show "validateField config vals name (Some v)
         = (if vals (or_str (matchField field) (js ''password'')) = Some v then None
            else Some (js ''Passwords do not match.''))"
    by (auto simp: validateField_RepeatPassword)
next
  fix name field acts and v :: jsstring
  assume h: "config_get config name = Some field \<and> type field = RepeatPassword
       \<and> or_str (matchField field) (js ''password'') \<notin> set (Object_keys config)
       \<and> v \<noteq> [] \<and> (\<forall>a\<in>set acts. configured config a)"
  then have "dom (values_store (run config acts)) \<subseteq> set (Object_keys config)"
    by (simp add: run_dom_subset)
  with h have "values_store (run config acts) (or_str (matchField field) (js ''password'')) = None"
    by (auto simp: domIff)
  with h show "validateField config (values_store (run config acts)) name (Some v)
         = Some (js ''Passwords do not match.'')"
    by (simp add: validateField_RepeatPassword)
next
  fix acts
  assume "js ''__proto__'' \<notin> set (Object_keys config)"
  then show "\<exists>valid st'. validateAll config (run config acts) = Inr (valid, st')"
    by (rule validateAll_returns)
qed

theorem dangling_match_mismatch_witness:
  "config_get dangling_config (js ''confirm'')
     = Some ((example_field RepeatPassword)\<lparr>matchField := Some (js ''ghost'')\<rparr>)
   \<and> js ''ghost'' \<notin> set (Object_keys dangling_config)
   \<and> js ''__proto__'' \<notin> set (Object_keys dangling_config)
   \<and> validateField dangling_config Map.empty (js ''confirm'') (Some (js ''abc''))
       = Some (js ''Passwords do not match.'')
   \<and> validateField dangling_config [js ''ghost'' \<mapsto> js ''abd''] (js ''confirm'')
        (Some (js ''abc'')) = Some (js ''Passwords do not match.'')
   \<and> validateField dangling_config [js ''ghost'' \<mapsto> js ''abc''] (js ''confirm'')
        (Some (js ''abc'')) = None
   \<and> validateField dangling_config
        (values_store (run dangling_config [Change (js ''confirm'') (js ''abc''), ValidateAll]))
        (js ''confirm'') (Some (js ''abc'')) = Some (js ''Passwords do not match.'')
   \<and> (\<exists>valid st'. validateAll dangling_config
          (run dangling_config [Change (js ''ghost'') (js ''abc'')]) = Inr (valid, st'))"
proof -
  let ?f = "(example_field RepeatPassword)\<lparr>matchField := Some (js ''ghost'')\<rparr>"
  have t: "type ?f = RepeatPassword"
    by (simp add: example_field_def)
  have tg: "or_str (matchField ?f) (js ''password'') = js ''ghost''"
    by (simp add: or_str_def js_nonempty)
  have k: "js ''ghost'' \<notin> set (Object_keys dangling_config)"
    by (simp add: dangling_config_def Object_keys_def js_def)
  have p: "js ''__proto__'' \<notin> set (Object_keys dangling_config)"
    by (simp add: dangling_config_def Object_keys_def js_def)
  have k': "or_str (matchField ?f) (js ''password'') \<notin> set (Object_keys dangling_config)"
    unfolding tg by (rule k)
  have ne: "js ''abc'' \<noteq> []"
    by (rule js_nonempty)
  have d: "js ''abc'' \<noteq> js ''abd''"
    by (simp add: js_def)
  have c: "\<forall>a\<in>set [Change (js ''confirm'') (js ''abc''), ValidateAll]. configured dangling_config a"
    by (simp add: dangling_config_def Object_keys_def)
  note m = dangling_match_mismatch [of dangling_config]
  from m dangling_field t k' ne
  have iff: "validateField dangling_config vals (js ''confirm'') (Some (js ''abc''))
         = (if vals (or_str (matchField ?f) (js ''password'')) = Some (js ''abc'') then None
            else Some (js ''Passwords do not match.''))" for vals
    by blast
  note iff' = iff [unfolded tg]
  have a1: "validateField dangling_config Map.empty (js ''confirm'') (Some (js ''abc''))
       = Some (js ''Passwords do not match.'')"
    by (simp add: iff')
  have a2: "validateField dangling_config [js ''ghost'' \<mapsto> js ''abd''] (js ''confirm'')
        (Some (js ''abc'')) = Some (js ''Passwords do not match.'')"
    using d by (simp add: iff')
  have a3: "validateField dangling_config [js ''ghost'' \<mapsto> js ''abc''] (js ''confirm'')
        (Some (js ''abc'')) = None"
    by (simp add: iff')
  from m dangling_field t k' ne c
  have a4: "validateField dangling_config
        (values_store (run dangling_config [Change (js ''confirm'') (js ''abc''), ValidateAll]))
        (js ''confirm'') (Some (js ''abc'')) = Some (js ''Passwords do not match.'')"
    by blast
  from m p have a5: "\<exists>valid st'. validateAll dangling_config
          (run dangling_config [Change (js ''ghost'') (js ''abc'')]) = Inr (valid, st')"
    by blast
  from dangling_field k p a1 a2 a3 a4 a5 show ?thesis
    by blast
qed

section \<open>A field named \<open>__proto__\<close>\<close>

text \<open>
  A configuration can have an own key \<open>"__proto__"\<close> (a parsed JSON text, a computed
  key). The assignment in the loop that builds \<open>initialValues\<close> then stores nothing, and
  \<open>validateAll\<close> validates the prototype object instead of a string: a required field of
  that name passes, and a password field with a character-count rule makes \<open>validateAll\<close>
  throw. The statements above about \<open>reset\<close>, the key set and throwing are made for
  configurations without such a key.
\<close>

lemma proto_not_initialised:
  "values_store (useFormValidation proto_required_config) (js ''__proto__'') = None"
  by (simp add: useFormValidation_def initialValues_apply)

lemma Object_prototype_proto: "Object_prototype (js ''__proto__'') = Some None"
  by (simp add: Object_prototype_def)

lemma proto_required_passes:
  "validateAll proto_required_config (reset proto_required_config st)
     = Inr (True, reset proto_required_config st)"
proof -
  have "validate_stored proto_required_config (initialValues proto_required_config)
          (js ''__proto__'') = Inr None"
    by (simp add: validate_stored_def initialValues_apply Object_prototype_proto
        validateField_object_def proto_required_config_def config_get_Cons example_field_def
        num_and_def)
  then show ?thesis
    by (simp add: validateAll_def validateAll_from_def reset_def proto_required_config_def
        Object_keys_def assign_def truthy_None)
qed

lemma proto_password_throws:
  "validateAll proto_password_config (useFormValidation proto_password_config) = Inl TypeError"
proof -
  have "validate_stored proto_password_config (initialValues proto_password_config)
          (js ''__proto__'') = Inl TypeError"
    by (simp add: validate_stored_def initialValues_apply Object_prototype_proto
        validateField_object_def proto_password_config_def config_get_Cons password_field_def
        example_field_def num_and_def length_and_def)
  then show ?thesis
    by (simp add: validateAll_def validateAll_from_def useFormValidation_def
        proto_password_config_def Object_keys_def)
qed

end
